theory Spec2Isabelle
  imports Main "HOL-Library.Multiset" "HOL-Library.Monad_Syntax"
begin

section \<open>Query and caching service layer of the film catalogue\<close>

text \<open>
  The development follows the Python sources: \<^verbatim>\<open>utils/params.py\<close>,
  \<^verbatim>\<open>services/search/base.py\<close>, \<^verbatim>\<open>services/search/elastic.py\<close>, \<^verbatim>\<open>db/cache.py\<close>,
  \<^verbatim>\<open>models/model.py\<close> and the services in \<^verbatim>\<open>services/\<close>. Python's unbounded integers
  are \<open>int\<close>, strings are \<open>string\<close>, a raised exception is the \<open>Inl\<close> branch of a sum.
  Record fields carry a prefix where two classes of the source share a field name
  (\<^verbatim>\<open>id\<close>, \<^verbatim>\<open>name\<close>) or where the name is a constant of HOL (\<^verbatim>\<open>sort\<close>, \<^verbatim>\<open>id\<close>).
\<close>

subsection \<open>Exceptions\<close>

text \<open>What the engine client raises: not-found, a rejected request, a transport failure.\<close>

datatype es_error = NotFoundError | RequestError | TransportError

datatype error =
    IndexError              \<comment> \<open>Python: index into an empty string\<close>
  | AttributeError          \<comment> \<open>Python: \<^verbatim>\<open>getattr\<close> of a missing attribute\<close>
  | ValidationError         \<comment> \<open>pydantic: a document does not fit the model\<close>
  | ConnectionCacheError    \<comment> \<open>\<^verbatim>\<open>db/cache.py\<close>: the service's own cache failure\<close>
  | RedisConnectionError    \<comment> \<open>\<^verbatim>\<open>redis.exceptions.ConnectionError\<close>\<close>
  | EngineError es_error    \<comment> \<open>an exception of the engine client that nothing catches\<close>

subsection \<open>Pagination and sort parameters (\<^verbatim>\<open>utils/params.py\<close>)\<close>

record CommonQueryParams =
  page_number :: int
  page_size :: int
  sort_param :: "string list"

definition CommonQueryParams_default :: CommonQueryParams where
  "CommonQueryParams_default = \<lparr>page_number = 1, page_size = 10, sort_param = []\<rparr>"

subsection \<open>Nested filters (\<^verbatim>\<open>services/search/base.py\<close>)\<close>

record NestedObjectQuery =
  nested_name :: string
  filter_field :: string
  term_value :: string

subsection \<open>Engine queries\<close>

text \<open>
  The dictionaries that \<^verbatim>\<open>text_search\<close> and \<^verbatim>\<open>_search\<close> build. \<open>Bool must should filter\<close>
  is a \<^verbatim>\<open>{"bool": {...}}\<close> dictionary; a key that the source leaves out is the empty list.
\<close>

datatype es_query =
    Match string string string        \<comment> \<open>field, query text, fuzziness\<close>
  | Multi_match string "string list"  \<comment> \<open>query text, fields\<close>
  | Term string string                \<comment> \<open>full field path, value\<close>
  | Nested string es_query            \<comment> \<open>path, query\<close>
  | Bool "es_query list" "es_query list" "es_query list"

record es_request =
  req_index :: string
  req_size :: int
  req_from :: int
  req_query :: es_query
  req_sort :: "(string \<times> string) list"

subsection \<open>Building the request (\<^verbatim>\<open>ElasticSearchService._search\<close>)\<close>

definition from_offset :: "CommonQueryParams \<Rightarrow> int" where
  "from_offset params =
     (if page_number params = 1 then 0
      else page_size params * page_number params - page_size params)"

text \<open>One element of the comprehension: \<^verbatim>\<open>sort_field[0]\<close> raises on the empty string.\<close>

definition sort_entry :: "string \<Rightarrow> error + (string \<times> string)" where
  "sort_entry sort_field =
     (case sort_field of
        [] \<Rightarrow> Inl IndexError
      | c # rest \<Rightarrow>
          if c = CHR ''-'' then Inr (rest, ''desc'') else Inr (sort_field, ''asc''))"

fun sort_entries :: "string list \<Rightarrow> error + (string \<times> string) list" where
  "sort_entries [] = Inr []"
| "sort_entries (sort_field # others) =
     (case sort_entry sort_field of
        Inl e \<Rightarrow> Inl e
      | Inr entry \<Rightarrow>
          (case sort_entries others of
             Inl e \<Rightarrow> Inl e
           | Inr entries \<Rightarrow> Inr (entry # entries)))"

definition sort_clause :: "CommonQueryParams \<Rightarrow> error + (string \<times> string) list" where
  "sort_clause params =
     (case sort_entries (sort_param params) of
        Inl e \<Rightarrow> Inl e
      | Inr entries \<Rightarrow> Inr (entries @ [(''_score'', ''desc'')]))"

definition nested_clause :: "NestedObjectQuery \<Rightarrow> es_query" where
  "nested_clause nested_object =
     Nested (nested_name nested_object)
       (Bool [] []
          [Term (nested_name nested_object @ ''.'' @ filter_field nested_object)
                (term_value nested_object)])"

definition search_request ::
  "string \<Rightarrow> CommonQueryParams option \<Rightarrow> NestedObjectQuery list option \<Rightarrow>
   es_query option \<Rightarrow> error + es_request" where
  "search_request index params_opt nested_objects search_query =
     (let params = (case params_opt of None \<Rightarrow> CommonQueryParams_default | Some p \<Rightarrow> p);
          from = from_offset params
      in case sort_clause params of
           Inl e \<Rightarrow> Inl e
         | Inr sorting \<Rightarrow>
             let must = (case search_query of None \<Rightarrow> [] | Some q \<Rightarrow> [q]);
                 nested = (case nested_objects of None \<Rightarrow> [] | Some ns \<Rightarrow> ns);
                 should = map nested_clause nested
             in Inr \<lparr>req_index = index, req_size = page_size params, req_from = from,
                     req_query = Bool must should [], req_sort = sorting\<rparr>)"


subsection \<open>Raw documents\<close>

text \<open>
  The engine returns documents as \<^verbatim>\<open>dict[str, Any]\<close>: an association list from keys to
  JSON values. Numbers are integers here; floating-point values are outside the model.
\<close>

datatype json =
    JNull
  | JBool bool
  | JNum int
  | JStr string
  | JArr "json list"
  | JObj "(string \<times> json) list"

type_synonym raw = "(string \<times> json) list"

subsection \<open>Entities (\<^verbatim>\<open>models/model.py\<close>)\<close>

record PersonFilm =
  pf_id :: string
  roles :: "string list"

record Person =
  person_id :: string
  full_name :: string
  films :: "PersonFilm list"

record Genre =
  genre_id :: string
  genre_name :: string
  genre_description :: "string option"

record FilmPerson =
  fp_id :: string
  fp_name :: string

text \<open>\<^verbatim>\<open>imdb_rating\<close> is an optional float; its type is the parameter \<open>'f\<close>.\<close>

record 'f Film =
  film_id :: string
  title :: string
  description :: "string option"
  imdb_rating :: "'f option"
  actors :: "FilmPerson list"
  writers :: "FilmPerson list"
  directors :: "FilmPerson list"
  genres :: "string list"
  actors_names :: "string list"
  writers_names :: "string list"
  directors_names :: "string list"

text \<open>
  A pydantic model class, as the services use it: \<^verbatim>\<open>Model(**d)\<close>, \<^verbatim>\<open>Model.model_validate(d)\<close>,
  \<^verbatim>\<open>Model.model_validate_json(s)\<close>, \<^verbatim>\<open>item.model_dump_json()\<close> and \<^verbatim>\<open>item.id\<close>. The
  library is not part of the sources, so a service takes these five as a parameter,
  as \<^verbatim>\<open>Service.__init__\<close> takes \<^verbatim>\<open>model\<close>.
\<close>

record 'e model_class =
  construct :: "raw \<Rightarrow> error + 'e"
  model_validate :: "raw \<Rightarrow> error + 'e"
  model_validate_json :: "string \<Rightarrow> error + 'e"
  model_dump_json :: "'e \<Rightarrow> string"
  item_id :: "'e \<Rightarrow> string"

text \<open>
  \<^verbatim>\<open>Genre(**d)\<close>: the three declared fields are required, \<^verbatim>\<open>id\<close> and \<^verbatim>\<open>name\<close> are
  strings, \<^verbatim>\<open>description\<close> is a string or \<^verbatim>\<open>None\<close>; other keys are ignored.
\<close>

definition Genre_construct :: "raw \<Rightarrow> error + Genre" where
  "Genre_construct d =
     (case (map_of d ''id'', map_of d ''name'', map_of d ''description'') of
        (Some (JStr i), Some (JStr n), Some (JStr t)) \<Rightarrow>
          Inr \<lparr>genre_id = i, genre_name = n, genre_description = Some t\<rparr>
      | (Some (JStr i), Some (JStr n), Some JNull) \<Rightarrow>
          Inr \<lparr>genre_id = i, genre_name = n, genre_description = None\<rparr>
      | _ \<Rightarrow> Inl ValidationError)"

subsection \<open>The engine client and the world\<close>

text \<open>
  The engine client is a collaborator outside the sources. A call is answered from the
  calls made so far and the call itself, so the same request may be answered differently
  at different times. \<^verbatim>\<open>get\<close> returns a hit or raises; \<^verbatim>\<open>search\<close> returns the hits
  or raises.
\<close>

record es_hit =
  hit_id :: string
  hit_source :: raw

datatype es_call = EsGet string string | EsSearch es_request

record engine =
  es_get :: "es_call list \<Rightarrow> string \<Rightarrow> string \<Rightarrow> es_error + es_hit"
  es_search :: "es_call list \<Rightarrow> es_request \<Rightarrow> es_error + es_hit list"

text \<open>
  The state outside the process: the calls the engine has received, whether the cache
  backend is reachable, what it stores (value and time to live, in seconds, by key), and
  the payloads written by \<^verbatim>\<open>logging.error\<close>. Expiry is not modelled: there is no clock.
\<close>

record world =
  es_log :: "es_call list"
  redis_up :: bool
  redis_data :: "string \<rightharpoonup> (string \<times> int)"
  error_log :: "raw list"

subsection \<open>The cache (\<^verbatim>\<open>db/cache.py\<close>)\<close>

text \<open>The Redis client: both calls raise its \<^verbatim>\<open>ConnectionError\<close> when the backend is down.\<close>

definition redis_get :: "world \<Rightarrow> string \<Rightarrow> error + string option" where
  "redis_get w key =
     (if redis_up w then Inr (map_option fst (redis_data w key))
      else Inl RedisConnectionError)"

definition redis_set :: "world \<Rightarrow> string \<Rightarrow> string \<Rightarrow> int \<Rightarrow> error + world" where
  "redis_set w key val ttl =
     (if redis_up w then Inr (w\<lparr>redis_data := (redis_data w)(key \<mapsto> (val, ttl))\<rparr>)
      else Inl RedisConnectionError)"

definition RedisCache_get :: "world \<Rightarrow> string \<Rightarrow> error + string option" where
  "RedisCache_get w key =
     (case redis_get w key of
        Inl e \<Rightarrow> (if e = RedisConnectionError then Inl ConnectionCacheError else Inl e)
      | Inr val \<Rightarrow> Inr val)"

definition RedisCache_put :: "world \<Rightarrow> string \<Rightarrow> string \<Rightarrow> int \<Rightarrow> error + world" where
  "RedisCache_put w key val ttl = redis_set w key val ttl"

subsection \<open>The engine adapter (\<^verbatim>\<open>services/search/elastic.py\<close>)\<close>

record search_service =
  elastic :: engine
  es_index :: string

definition log_call :: "world \<Rightarrow> es_call \<Rightarrow> world" where
  "log_call w c = w\<lparr>es_log := es_log w @ [c]\<rparr>"

definition ElasticSearchService_get_by_id ::
  "search_service \<Rightarrow> world \<Rightarrow> string \<Rightarrow> (error + raw option) \<times> world" where
  "ElasticSearchService_get_by_id ss w ident =
     (let w' = log_call w (EsGet (es_index ss) ident)
      in case es_get (elastic ss) (es_log w) (es_index ss) ident of
           Inl e \<Rightarrow> (if e = NotFoundError then (Inr None, w') else (Inl (EngineError e), w'))
         | Inr doc \<Rightarrow> (Inr (Some (hit_source doc)), w'))"

definition ElasticSearchService_search ::
  "search_service \<Rightarrow> world \<Rightarrow> CommonQueryParams option \<Rightarrow> NestedObjectQuery list option \<Rightarrow>
   es_query option \<Rightarrow> (error + raw list) \<times> world" where
  "ElasticSearchService_search ss w params nested_objects search_query =
     (case search_request (es_index ss) params nested_objects search_query of
        Inl e \<Rightarrow> (Inl e, w)
      | Inr req \<Rightarrow>
          (let w' = log_call w (EsSearch req)
           in case es_search (elastic ss) (es_log w) req of
                Inl e \<Rightarrow> (Inl (EngineError e), w')
              | Inr hits \<Rightarrow> (Inr (map hit_source hits), w')))"

definition ElasticSearchService_get_list ::
  "search_service \<Rightarrow> world \<Rightarrow> CommonQueryParams option \<Rightarrow> NestedObjectQuery list option \<Rightarrow>
   (error + raw list) \<times> world" where
  "ElasticSearchService_get_list ss w params nested_objects =
     ElasticSearchService_search ss w params nested_objects None"

text \<open>\<^verbatim>\<open>not search_query\<close> holds for \<^verbatim>\<open>None\<close> and for the empty string.\<close>

definition text_query :: "string option \<Rightarrow> string list \<Rightarrow> es_query option" where
  "text_query search_query search_fields =
     (case search_query of
        None \<Rightarrow> None
      | Some text \<Rightarrow>
          if text = [] then None
          else if length search_fields = 1 then Some (Match (hd search_fields) text ''auto'')
          else Some (Multi_match text search_fields))"

definition ElasticSearchService_text_search ::
  "search_service \<Rightarrow> world \<Rightarrow> string option \<Rightarrow> string list \<Rightarrow> CommonQueryParams option \<Rightarrow>
   (error + raw list) \<times> world" where
  "ElasticSearchService_text_search ss w search_query search_fields params =
     ElasticSearchService_search ss w params None (text_query search_query search_fields)"

subsection \<open>The generic service (\<^verbatim>\<open>services/service.py\<close>)\<close>

definition CACHE_EXPIRE_IN_SECONDS :: int where
  "CACHE_EXPIRE_IN_SECONDS = 60 * 5"

text \<open>The cache is the Redis cache of the world; the other constructor arguments are fields.\<close>

record 'e Service =
  search_service_of :: search_service
  entity_name :: string
  model :: "'e model_class"

text \<open>\<^verbatim>\<open>not data\<close> holds for \<^verbatim>\<open>None\<close> and for empty data.\<close>

definition Service_get_from_cache :: "'e Service \<Rightarrow> world \<Rightarrow> string \<Rightarrow> error + 'e option" where
  "Service_get_from_cache svc w ident =
     (case RedisCache_get w (entity_name svc @ ''_'' @ ident) of
        Inl e \<Rightarrow> Inl e
      | Inr None \<Rightarrow> Inr None
      | Inr (Some data) \<Rightarrow>
          if data = [] then Inr None
          else (case model_validate_json (model svc) data of
                  Inl e \<Rightarrow> Inl e
                | Inr item \<Rightarrow> Inr (Some item)))"

definition Service_put_to_cache :: "'e Service \<Rightarrow> world \<Rightarrow> 'e \<Rightarrow> error + world" where
  "Service_put_to_cache svc w item =
     RedisCache_put w (entity_name svc @ ''_'' @ item_id (model svc) item)
       (model_dump_json (model svc) item) CACHE_EXPIRE_IN_SECONDS"

text \<open>
  An entity is always truthy, so \<^verbatim>\<open>not item\<close> is \<^verbatim>\<open>item is None\<close>; the walrus test on
  \<^verbatim>\<open>item_dict\<close> fails for \<^verbatim>\<open>None\<close> and for the empty dictionary.
\<close>

definition Service_get_by_id :: "'e Service \<Rightarrow> world \<Rightarrow> string \<Rightarrow> (error + 'e option) \<times> world" where
  "Service_get_by_id svc w ident =
     (case Service_get_from_cache svc w ident of
        Inl e \<Rightarrow> (Inl e, w)
      | Inr (Some item) \<Rightarrow> (Inr (Some item), w)
      | Inr None \<Rightarrow>
          (case ElasticSearchService_get_by_id (search_service_of svc) w ident of
             (Inl e, w1) \<Rightarrow> (Inl e, w1)
           | (Inr None, w1) \<Rightarrow> (Inr None, w1)
           | (Inr (Some item_dict), w1) \<Rightarrow>
               if item_dict = [] then (Inr None, w1)
               else (case construct (model svc) item_dict of
                       Inl e \<Rightarrow> (Inl e, w1)
                     | Inr item \<Rightarrow>
                         (case Service_put_to_cache svc w1 item of
                            Inl e \<Rightarrow> (Inl e, w1)
                          | Inr w2 \<Rightarrow> (Inr (Some item), w2)))))"

definition Service_get_by_text_field ::
  "'e Service \<Rightarrow> world \<Rightarrow> string \<Rightarrow> string \<Rightarrow> (error + 'e option) \<times> world" where
  "Service_get_by_text_field svc w search_field search_text =
     (case ElasticSearchService_text_search (search_service_of svc) w
             (Some search_text) [search_field] None of
        (Inl e, w1) \<Rightarrow> (Inl e, w1)
      | (Inr unused, w1) \<Rightarrow>
          (case ElasticSearchService_text_search (search_service_of svc) w1
                  (Some search_text) [search_field] None of
             (Inl e, w2) \<Rightarrow> (Inl e, w2)
           | (Inr items, w2) \<Rightarrow>
               (case items of
                  [] \<Rightarrow> (Inr None, w2)
                | first # _ \<Rightarrow>
                    (case model_validate (model svc) first of
                       Inl e \<Rightarrow> (Inl e, w2)
                     | Inr item \<Rightarrow> (Inr (Some item), w2)))))"

subsection \<open>Genres (\<^verbatim>\<open>services/genre.py\<close>)\<close>

definition GenreService :: "search_service \<Rightarrow> Genre model_class \<Rightarrow> Genre Service" where
  "GenreService ss m = \<lparr>search_service_of = ss, entity_name = ''genres'', model = m\<rparr>"

text \<open>
  The \<^verbatim>\<open>try\<close> block holds the engine lookup, \<^verbatim>\<open>Genre(**genre_dict)\<close> and the cache write;
  of these only the constructor raises \<^verbatim>\<open>ValidationError\<close>. The handler logs the
  dictionary and the method falls off its end, returning \<^verbatim>\<open>None\<close>.
\<close>

definition GenreService_get_by_id ::
  "Genre Service \<Rightarrow> world \<Rightarrow> string \<Rightarrow> (error + Genre option) \<times> world" where
  "GenreService_get_by_id svc w ident =
     (case Service_get_from_cache svc w ident of
        Inl e \<Rightarrow> (Inl e, w)
      | Inr (Some genre) \<Rightarrow> (Inr (Some genre), w)
      | Inr None \<Rightarrow>
          (case ElasticSearchService_get_by_id (search_service_of svc) w ident of
             (Inl e, w1) \<Rightarrow> (Inl e, w1)
           | (Inr None, w1) \<Rightarrow> (Inr None, w1)
           | (Inr (Some genre_dict), w1) \<Rightarrow>
               if genre_dict = [] then (Inr None, w1)
               else (case Genre_construct genre_dict of
                       Inl e \<Rightarrow>
                         if e = ValidationError
                         then (Inr None, w1\<lparr>error_log := error_log w1 @ [genre_dict]\<rparr>)
                         else (Inl e, w1)
                     | Inr genre \<Rightarrow>
                         (case Service_put_to_cache svc w1 genre of
                            Inl e \<Rightarrow> (Inl e, w1)
                          | Inr w2 \<Rightarrow> (Inr (Some genre), w2)))))"

subsection \<open>Films (\<^verbatim>\<open>services/film.py\<close>)\<close>

definition PERSON_ROLES :: "string list" where
  "PERSON_ROLES = [''actor'', ''director'', ''writer'']"

definition FilmService :: "search_service \<Rightarrow> 'f Film model_class \<Rightarrow> 'f Film Service" where
  "FilmService ss m = \<lparr>search_service_of = ss, entity_name = ''movies'', model = m\<rparr>"

text \<open>A comprehension \<^verbatim>\<open>[Model(**d) for d in ds]\<close>: the first failure is raised.\<close>

fun construct_all :: "(raw \<Rightarrow> error + 'e) \<Rightarrow> raw list \<Rightarrow> error + 'e list" where
  "construct_all mk [] = Inr []"
| "construct_all mk (d # ds) =
     (case mk d of
        Inl e \<Rightarrow> Inl e
      | Inr item \<Rightarrow>
          (case construct_all mk ds of
             Inl e \<Rightarrow> Inl e
           | Inr items \<Rightarrow> Inr (item # items)))"

text \<open>\<^verbatim>\<open>Film(**d)\<close> is the constructor of the service's model.\<close>

definition FilmService_search ::
  "'f Film Service \<Rightarrow> world \<Rightarrow> string \<Rightarrow> CommonQueryParams \<Rightarrow> (error + 'f Film list) \<times> world" where
  "FilmService_search svc w text query_params =
     (let search_fields =
            [''title^3'', ''description'', ''actors_names'', ''writers_names'', ''directors_names'']
      in case ElasticSearchService_text_search (search_service_of svc) w
                (Some text) search_fields (Some query_params) of
           (Inl e, w1) \<Rightarrow> (Inl e, w1)
         | (Inr raw_films, w1) \<Rightarrow> (construct_all (construct (model svc)) raw_films, w1))"

definition person_nested_objects :: "string \<Rightarrow> NestedObjectQuery list" where
  "person_nested_objects person =
     map (\<lambda>role. \<lparr>nested_name = role @ ''s'', filter_field = ''id'', term_value = person\<rparr>)
       PERSON_ROLES"

definition FilmService_get_person_films ::
  "'f Film Service \<Rightarrow> world \<Rightarrow> string \<Rightarrow> CommonQueryParams \<Rightarrow> (error + 'f Film list) \<times> world" where
  "FilmService_get_person_films svc w person params =
     (case ElasticSearchService_get_list (search_service_of svc) w
             (Some params) (Some (person_nested_objects person)) of
        (Inl e, w1) \<Rightarrow> (Inl e, w1)
      | (Inr person_films, w1) \<Rightarrow> (construct_all (construct (model svc)) person_films, w1))"

subsection \<open>Roles of a person (\<^verbatim>\<open>services/person.py\<close>)\<close>

text \<open>\<^verbatim>\<open>getattr(filmwork, attr)\<close> for the three name lists; any other name raises.\<close>

definition getattr_names :: "'f Film \<Rightarrow> string \<Rightarrow> error + string list" where
  "getattr_names filmwork attr =
     (if attr = ''actors_names'' then Inr (actors_names filmwork)
      else if attr = ''writers_names'' then Inr (writers_names filmwork)
      else if attr = ''directors_names'' then Inr (directors_names filmwork)
      else Inl AttributeError)"

text \<open>The inner loop over the roles, appending to \<^verbatim>\<open>person_film.roles\<close>.\<close>

fun add_roles :: "Person \<Rightarrow> 'f Film \<Rightarrow> string list \<Rightarrow> PersonFilm \<Rightarrow> error + PersonFilm" where
  "add_roles person filmwork [] person_film = Inr person_film"
| "add_roles person filmwork (role # rs) person_film =
     (case getattr_names filmwork (role @ ''s_names'') of
        Inl e \<Rightarrow> Inl e
      | Inr names \<Rightarrow>
          add_roles person filmwork rs
            (if full_name person \<in> set names
             then person_film\<lparr>roles := roles person_film @ [role]\<rparr>
             else person_film))"

text \<open>The outer loop over the films, appending to \<^verbatim>\<open>result\<close>.\<close>

fun roles_loop :: "Person \<Rightarrow> 'f Film list \<Rightarrow> PersonFilm list \<Rightarrow> error + PersonFilm list" where
  "roles_loop person [] result = Inr result"
| "roles_loop person (filmwork # fs) result =
     (case add_roles person filmwork PERSON_ROLES \<lparr>pf_id = film_id filmwork, roles = []\<rparr> of
        Inl e \<Rightarrow> Inl e
      | Inr person_film \<Rightarrow> roles_loop person fs (result @ [person_film]))"

definition get_roles_from_filmworks :: "Person \<Rightarrow> 'f Film list \<Rightarrow> error + PersonFilm list" where
  "get_roles_from_filmworks person person_filmworks = roles_loop person person_filmworks []"

subsection \<open>A reference engine\<close>

text \<open>
  Modelled from the spec: the search engine itself is missing from the sources; section 6
  of the specification names it as a collaborator, a document store with boolean and
  nested-query capability behind \<^verbatim>\<open>search(index, query, sort, size, from)\<close> and
  \<^verbatim>\<open>get(index, id)\<close>, and section 4.2 says how the clauses of a listing combine: the
  nested filters are OR-combined and ANDed with any text predicate. The reference engine
  holds, per index, a list of hits. A nested query holds for a document when one of the
  objects under its path satisfies the inner query; a term query holds when the field
  has the value (or is an array holding it); a bool query needs every \<open>must\<close> and
  \<open>filter\<close> clause and, when it has \<open>should\<close> clauses, one of them. How text clauses match
  (\<open>txt\<close>) and how hits are ordered (\<open>rank\<close>) are parameters, as is the largest
  \<open>from + size\<close> the engine accepts (\<open>window\<close>); \<open>size\<close> hits are returned, starting
  at position \<open>from\<close> of the ordered matches.
\<close>

definition nested_objects_at :: "raw \<Rightarrow> string \<Rightarrow> raw list" where
  "nested_objects_at doc path =
     (case map_of doc path of
        Some (JArr xs) \<Rightarrow> concat (map (\<lambda>x. case x of JObj kv \<Rightarrow> [kv] | _ \<Rightarrow> []) xs)
      | Some (JObj kv) \<Rightarrow> [kv]
      | _ \<Rightarrow> [])"

definition field_is :: "raw \<Rightarrow> string \<Rightarrow> string \<Rightarrow> bool" where
  "field_is doc field v =
     (case map_of doc field of
        Some (JStr s) \<Rightarrow> s = v
      | Some (JArr xs) \<Rightarrow> JStr v \<in> set xs
      | _ \<Rightarrow> False)"

definition strip_prefix :: "string \<Rightarrow> string \<Rightarrow> string option" where
  "strip_prefix p s = (if take (length p) s = p then Some (drop (length p) s) else None)"

fun es_matches :: "(es_query \<Rightarrow> raw \<Rightarrow> bool) \<Rightarrow> string \<Rightarrow> es_query \<Rightarrow> raw \<Rightarrow> bool" where
  "es_matches txt prefix (Match f t z) doc = txt (Match f t z) doc"
| "es_matches txt prefix (Multi_match t fs) doc = txt (Multi_match t fs) doc"
| "es_matches txt prefix (Term key v) doc =
     (case strip_prefix prefix key of
        None \<Rightarrow> False
      | Some field \<Rightarrow> field_is doc field v)"
| "es_matches txt prefix (Nested path q) doc =
     (case strip_prefix prefix path of
        None \<Rightarrow> False
      | Some rel \<Rightarrow> (\<exists>obj \<in> set (nested_objects_at doc rel). es_matches txt (path @ ''.'') q obj))"
| "es_matches txt prefix (Bool must should flt) doc =
     ((\<forall>q \<in> set must. es_matches txt prefix q doc) \<and>
      (\<forall>q \<in> set flt. es_matches txt prefix q doc) \<and>
      (should = [] \<or> (\<exists>q \<in> set should. es_matches txt prefix q doc)))"

definition reference_search ::
  "(es_query \<Rightarrow> raw \<Rightarrow> bool) \<Rightarrow> ((string \<times> string) list \<Rightarrow> es_query \<Rightarrow> es_hit list \<Rightarrow> es_hit list) \<Rightarrow>
   int \<Rightarrow> es_hit list \<Rightarrow> es_request \<Rightarrow> es_error + es_hit list" where
  "reference_search txt rank window hits req =
     (if req_from req < 0 \<or> req_size req < 0 \<or> window < req_from req + req_size req
      then Inl RequestError
      else Inr (take (nat (req_size req)) (drop (nat (req_from req))
                  (rank (req_sort req) (req_query req)
                     (filter (\<lambda>h. es_matches txt [] (req_query req) (hit_source h)) hits)))))"

definition reference_engine ::
  "(es_query \<Rightarrow> raw \<Rightarrow> bool) \<Rightarrow> ((string \<times> string) list \<Rightarrow> es_query \<Rightarrow> es_hit list \<Rightarrow> es_hit list) \<Rightarrow>
   int \<Rightarrow> (string \<rightharpoonup> es_hit list) \<Rightarrow> engine" where
  "reference_engine txt rank window indices =
     \<lparr>es_get = (\<lambda>calls idx ident.
         case indices idx of
           None \<Rightarrow> Inl NotFoundError
         | Some hits \<Rightarrow>
             (case find (\<lambda>h. hit_id h = ident) hits of
                None \<Rightarrow> Inl NotFoundError
              | Some h \<Rightarrow> Inr h)),
      es_search = (\<lambda>calls req.
         case indices (req_index req) of
           None \<Rightarrow> Inl NotFoundError
         | Some hits \<Rightarrow> reference_search txt rank window hits req)\<rparr>"

subsection \<open>The specification's readings\<close>

text \<open>
  Not part of the sources. A person is in a film when an object under \<^verbatim>\<open>actors\<close>,
  \<^verbatim>\<open>writers\<close> or \<^verbatim>\<open>directors\<close> of the document carries the person's id.
\<close>

definition spec_person_in_path :: "string \<Rightarrow> raw \<Rightarrow> string \<Rightarrow> bool" where
  "spec_person_in_path person doc path =
     (\<exists>obj \<in> set (nested_objects_at doc path). field_is obj ''id'' person)"

definition spec_person_in_film :: "string \<Rightarrow> raw \<Rightarrow> bool" where
  "spec_person_in_film person doc =
     (spec_person_in_path person doc ''actors'' \<or>
      spec_person_in_path person doc ''writers'' \<or>
      spec_person_in_path person doc ''directors'')"

text \<open>
  The name list of a film for a role label, and the roles of a person in a film: the
  labels under whose name list the person's full name stands.
\<close>

definition spec_role_names :: "'f Film \<Rightarrow> string \<Rightarrow> string list" where
  "spec_role_names filmwork role =
     (if role = ''actor'' then actors_names filmwork
      else if role = ''writer'' then writers_names filmwork
      else if role = ''director'' then directors_names filmwork
      else [])"

definition spec_roles :: "Person \<Rightarrow> 'f Film \<Rightarrow> string set" where
  "spec_roles person filmwork =
     {role. role \<in> {''actor'', ''writer'', ''director''} \<and>
            full_name person \<in> set (spec_role_names filmwork role)}"

text \<open>The same roles as a list, in the order of \<open>PERSON_ROLES\<close>.\<close>

definition derived_roles :: "Person \<Rightarrow> 'f Film \<Rightarrow> string list" where
  "derived_roles person filmwork =
     filter (\<lambda>role. full_name person \<in> set (spec_role_names filmwork role)) PERSON_ROLES"

text \<open>
  A directive resolves to a field and a direction, a leading \<^verbatim>\<open>-\<close> meaning descending.
  It is total, unlike \<open>sort_entry\<close>.
\<close>

definition spec_sort_directive :: "string \<Rightarrow> string \<times> string" where
  "spec_sort_directive d =
     (if take 1 d = ''-'' then (drop 1 d, ''desc'') else (d, ''asc''))"

subsection \<open>Example data\<close>

definition alice :: Person where
  "alice = \<lparr>person_id = ''p1'', full_name = ''Alice'', films = []\<rparr>"

definition alice_film :: "int Film" where
  "alice_film =
     \<lparr>film_id = ''f1'', title = ''A film'', description = None, imdb_rating = None,
      actors = [\<lparr>fp_id = ''p1'', fp_name = ''Alice''\<rparr>], writers = [],
      directors = [\<lparr>fp_id = ''p1'', fp_name = ''Alice''\<rparr>], genres = [],
      actors_names = [''Alice''], writers_names = [], directors_names = [''Alice'']\<rparr>"

definition world_down :: world where
  "world_down = \<lparr>es_log = [], redis_up = False, redis_data = Map.empty, error_log = []\<rparr>"

definition drama :: Genre where
  "drama = \<lparr>genre_id = ''g1'', genre_name = ''Drama'', genre_description = None\<rparr>"

definition drama_doc :: raw where
  "drama_doc = [(''id'', JStr ''g1''), (''name'', JStr ''Drama''), (''description'', JNull)]"

definition broken_doc :: raw where
  "broken_doc = [(''id'', JStr ''g2'')]"

definition drama_json :: string where
  "drama_json = ''{id:g1,name:Drama,description:null}''"

text \<open>
  A model class for the examples: the constructor is that of \<^verbatim>\<open>Genre\<close>, the JSON side
  knows one entity and its text.
\<close>

definition example_genre_model :: "Genre model_class" where
  "example_genre_model =
     \<lparr>construct = Genre_construct, model_validate = Genre_construct,
      model_validate_json = (\<lambda>s. if s = drama_json then Inr drama else Inl ValidationError),
      model_dump_json = (\<lambda>g. if g = drama then drama_json else ''{}''),
      item_id = genre_id\<rparr>"

text \<open>A stand-in for text matching: a field of the document has the query text as value.\<close>

definition exact_text :: "es_query \<Rightarrow> raw \<Rightarrow> bool" where
  "exact_text q doc =
     (case q of
        Match f t z \<Rightarrow> field_is doc f t
      | Multi_match t fs \<Rightarrow> (\<exists>f \<in> set fs. field_is doc f t)
      | _ \<Rightarrow> False)"

definition genre_hits :: "es_hit list" where
  "genre_hits = [\<lparr>hit_id = ''g1'', hit_source = drama_doc\<rparr>, \<lparr>hit_id = ''g2'', hit_source = broken_doc\<rparr>]"

text \<open>
  Three film documents: Alice (\<^verbatim>\<open>p1\<close>) acts in and directs the first and only writes the
  second; the third has no title and names her only in a flat name list.
\<close>

definition film_one_doc :: raw where
  "film_one_doc =
     [(''id'', JStr ''f1''), (''title'', JStr ''A film''), (''description'', JNull),
      (''imdb_rating'', JNull),
      (''actors'', JArr [JObj [(''id'', JStr ''p1''), (''name'', JStr ''Alice'')]]),
      (''writers'', JArr []),
      (''directors'', JArr [JObj [(''id'', JStr ''p1''), (''name'', JStr ''Alice'')]]),
      (''actors_names'', JArr [JStr ''Alice'']), (''writers_names'', JArr []),
      (''directors_names'', JArr [JStr ''Alice''])]"

definition film_two_doc :: raw where
  "film_two_doc =
     [(''id'', JStr ''f2''), (''title'', JStr ''Another film''), (''description'', JNull),
      (''imdb_rating'', JNull),
      (''actors'', JArr [JObj [(''id'', JStr ''p2''), (''name'', JStr ''Bob'')]]),
      (''writers'', JArr [JObj [(''id'', JStr ''p1''), (''name'', JStr ''Alice'')]]),
      (''directors'', JArr []),
      (''actors_names'', JArr [JStr ''Bob'']), (''writers_names'', JArr [JStr ''Alice'']),
      (''directors_names'', JArr [])]"

definition film_three_doc :: raw where
  "film_three_doc = [(''id'', JStr ''f3''), (''actors_names'', JArr [JStr ''Alice''])]"

definition movie_hits :: "es_hit list" where
  "movie_hits =
     [\<lparr>hit_id = ''f1'', hit_source = film_one_doc\<rparr>,
      \<lparr>hit_id = ''f2'', hit_source = film_two_doc\<rparr>,
      \<lparr>hit_id = ''f3'', hit_source = film_three_doc\<rparr>]"

definition film_two :: "int Film" where
  "film_two =
     \<lparr>film_id = ''f2'', title = ''Another film'', description = None, imdb_rating = None,
      actors = [\<lparr>fp_id = ''p2'', fp_name = ''Bob''\<rparr>],
      writers = [\<lparr>fp_id = ''p1'', fp_name = ''Alice''\<rparr>], directors = [], genres = [],
      actors_names = [''Bob''], writers_names = [''Alice''], directors_names = []\<rparr>"

text \<open>
  A model class for the examples that hydrates the first two documents and rejects every
  other one; its JSON side is not used.
\<close>

definition example_film_model :: "int Film model_class" where
  "example_film_model =
     \<lparr>construct = (\<lambda>d. if d = film_one_doc then Inr alice_film
                       else if d = film_two_doc then Inr film_two
                       else Inl ValidationError),
      model_validate = (\<lambda>d. Inl ValidationError),
      model_validate_json = (\<lambda>s. Inl ValidationError),
      model_dump_json = (\<lambda>f. ''{}''),
      item_id = film_id\<rparr>"

text \<open>An engine over the two indices that keeps the hits in the order of the index.\<close>

definition example_engine :: engine where
  "example_engine =
     reference_engine exact_text (\<lambda>s q hs. hs) 10000
       [''genres'' \<mapsto> genre_hits, ''movies'' \<mapsto> movie_hits]"

definition example_films :: "int Film Service" where
  "example_films =
     FilmService \<lparr>elastic = example_engine, es_index = ''movies''\<rparr> example_film_model"

definition example_genres :: "Genre Service" where
  "example_genres = GenreService \<lparr>elastic = example_engine, es_index = ''genres''\<rparr> example_genre_model"

definition world_empty :: world where
  "world_empty = \<lparr>es_log = [], redis_up = True, redis_data = Map.empty, error_log = []\<rparr>"

definition world_cached :: world where
  "world_cached = world_empty\<lparr>redis_data := [''genres_g1'' \<mapsto> (drama_json, 300)]\<rparr>"

text \<open>
  An engine whose answer depends on the calls made so far: the first search finds
  nothing, every later one finds the drama document.
\<close>

definition late_engine :: engine where
  "late_engine =
     \<lparr>es_get = (\<lambda>calls idx ident. Inl NotFoundError),
      es_search = (\<lambda>calls req.
         if calls = [] then Inr [] else Inr [\<lparr>hit_id = ''g1'', hit_source = drama_doc\<rparr>])\<rparr>"

definition late_genres :: "Genre Service" where
  "late_genres = GenreService \<lparr>elastic = late_engine, es_index = ''genres''\<rparr> example_genre_model"

text \<open>
  Not part of the sources: the request that \<^verbatim>\<open>text_search\<close> is expected to send for one
  field, a text and no parameters.
\<close>

definition text_field_request :: "string \<Rightarrow> string \<Rightarrow> string \<Rightarrow> es_request" where
  "text_field_request idx search_field search_text =
     \<lparr>req_index = idx, req_size = 10, req_from = 0,
      req_query = Bool (if search_text = [] then [] else [Match search_field search_text ''auto'']) [] [],
      req_sort = [(''_score'', ''desc'')]\<rparr>"

definition movies_search :: search_service where
  "movies_search = \<lparr>elastic = example_engine, es_index = ''movies''\<rparr>"

subsection \<open>The JSON text of the entities\<close>

text \<open>
  Modelled from the spec: the JSON codec of the model classes (\<^verbatim>\<open>model_dump_json\<close>,
  \<^verbatim>\<open>model_validate_json\<close>) is pydantic's and is missing from the sources; the
  specification only says that the cache holds serialized snapshots of the entities and
  that a hit is deserialized. The text format, on which the specification is silent, is
  the one the library writes for the classes of \<^verbatim>\<open>models/model.py\<close>: one object with the
  fields in the order of their declaration and no white space; a string in double quotes
  with the quote, the backslash and the control characters escaped; \<^verbatim>\<open>None\<close> as
  \<^verbatim>\<open>null\<close>; a list in brackets; a finite float as its decimal text and an infinite or
  NaN float as \<^verbatim>\<open>null\<close>. Reading is modelled for the texts that are written: the same
  fields in the same order, without white space, with four-digit hexadecimal escapes below 128 only;
  any other text is rejected here, although the library reads some of them. The cache
  holds only what \<^verbatim>\<open>_put_to_cache\<close> wrote.
\<close>

abbreviation dq :: char where "dq \<equiv> CHR 0x22"

abbreviation backslash :: char where "backslash \<equiv> CHR 0x5C"

definition hex_digit :: "nat \<Rightarrow> char" where
  "hex_digit d = (if d < 10 then char_of (48 + d) else char_of (87 + d))"

definition hex_value :: "char \<Rightarrow> nat option" where
  "hex_value c =
     (let n = of_char c :: nat
      in if 48 \<le> n \<and> n \<le> 57 then Some (n - 48)
         else if 97 \<le> n \<and> n \<le> 102 then Some (n - 87)
         else if 65 \<le> n \<and> n \<le> 70 then Some (n - 55)
         else None)"

text \<open>One character inside a JSON string, and the whole string.\<close>

definition escape_char :: "char \<Rightarrow> string" where
  "escape_char c =
     (if c = dq then [backslash, dq]
      else if c = backslash then [backslash, backslash]
      else if c = CHR 0x08 then [backslash, CHR ''b'']
      else if c = CHR 0x0C then [backslash, CHR ''f'']
      else if c = CHR 0x0A then [backslash, CHR ''n'']
      else if c = CHR 0x0D then [backslash, CHR ''r'']
      else if c = CHR 0x09 then [backslash, CHR ''t'']
      else if (of_char c :: nat) < 32
      then [backslash, CHR ''u'', CHR ''0'', CHR ''0'',
            hex_digit (of_char c div 16), hex_digit (of_char c mod 16)]
      else [c])"

definition json_string :: "string \<Rightarrow> string" where
  "json_string s = dq # concat (map escape_char s) @ [dq]"

text \<open>
  Reading a string back: \<open>read_chars\<close> reads up to the closing quote and returns the
  characters and the rest of the text.
\<close>

definition unescape :: "char \<Rightarrow> char option" where
  "unescape e =
     (if e = dq then Some dq
      else if e = backslash then Some backslash
      else if e = CHR ''/'' then Some (CHR ''/'')
      else if e = CHR ''b'' then Some (CHR 0x08)
      else if e = CHR ''f'' then Some (CHR 0x0C)
      else if e = CHR ''n'' then Some (CHR 0x0A)
      else if e = CHR ''r'' then Some (CHR 0x0D)
      else if e = CHR ''t'' then Some (CHR 0x09)
      else None)"

definition read_u00 :: "string \<Rightarrow> char option" where
  "read_u00 ds =
     (case ds of
        [a, b, c, d] \<Rightarrow>
          if a = CHR ''0'' \<and> b = CHR ''0'' then
            (case (hex_value c, hex_value d) of
               (Some h, Some l) \<Rightarrow> if 16 * h + l < 128 then Some (char_of (16 * h + l)) else None
             | _ \<Rightarrow> None)
          else None
      | _ \<Rightarrow> None)"

fun read_chars :: "string \<Rightarrow> (string \<times> string) option" where
  "read_chars [] = None"
| "read_chars (c # cs) =
     (if c = dq then Some ([], cs)
      else if c = backslash then
        (case cs of
           [] \<Rightarrow> None
         | e # es \<Rightarrow>
             if e = CHR ''u'' then
               (case read_u00 (take 4 es) of
                  None \<Rightarrow> None
                | Some ch \<Rightarrow>
                    (case read_chars (drop 4 es) of
                       None \<Rightarrow> None
                     | Some (s, r) \<Rightarrow> Some (ch # s, r)))
             else
               (case unescape e of
                  None \<Rightarrow> None
                | Some ch \<Rightarrow>
                    (case read_chars es of
                       None \<Rightarrow> None
                     | Some (s, r) \<Rightarrow> Some (ch # s, r))))
      else if (of_char c :: nat) < 32 then None
      else (case read_chars cs of
              None \<Rightarrow> None
            | Some (s, r) \<Rightarrow> Some (c # s, r)))"

definition read_string :: "string \<Rightarrow> (string \<times> string) option" where
  "read_string s = (case s of [] \<Rightarrow> None | c # cs \<Rightarrow> if c = dq then read_chars cs else None)"

text \<open>
  A list, written with \<open>pr\<close> for its elements. \<open>read_items\<close> reads the elements and the
  closing bracket; its first argument bounds the number of elements and is the length of
  the text.
\<close>

fun comma_sep :: "string list \<Rightarrow> string" where
  "comma_sep [] = []"
| "comma_sep [t] = t"
| "comma_sep (t # u # ts) = t @ CHR '','' # comma_sep (u # ts)"

definition json_array :: "('a \<Rightarrow> string) \<Rightarrow> 'a list \<Rightarrow> string" where
  "json_array pr xs = CHR ''['' # comma_sep (map pr xs) @ '']''"

fun read_items :: "nat \<Rightarrow> (string \<Rightarrow> ('a \<times> string) option) \<Rightarrow> string \<Rightarrow> ('a list \<times> string) option" where
  "read_items 0 rd s = None"
| "read_items (Suc n) rd s =
     (case rd s of
        None \<Rightarrow> None
      | Some (x, r) \<Rightarrow>
          (case r of
             [] \<Rightarrow> None
           | c # r' \<Rightarrow>
               if c = CHR '','' then
                 (case read_items n rd r' of
                    None \<Rightarrow> None
                  | Some (xs, r'') \<Rightarrow> Some (x # xs, r''))
               else if c = CHR '']'' then Some ([x], r')
               else None))"

definition read_array :: "(string \<Rightarrow> ('a \<times> string) option) \<Rightarrow> string \<Rightarrow> ('a list \<times> string) option" where
  "read_array rd s =
     (case s of
        [] \<Rightarrow> None
      | c # cs \<Rightarrow>
          if c = CHR ''['' then
            (case cs of
               [] \<Rightarrow> None
             | d # ds \<Rightarrow> if d = CHR '']'' then Some ([], ds) else read_items (length cs) rd cs)
          else None)"

text \<open>
  A float. Arithmetic on floats and the conversion between binary floats and decimal text
  are outside the model: a finite float is kept as the decimal text that the serializer
  writes for it (\<^verbatim>\<open>8.5\<close>, \<^verbatim>\<open>7.0\<close>, \<^verbatim>\<open>1e-7\<close>), a non-empty text over the characters of a
  JSON number. The three other values are the infinities and NaN.
\<close>

datatype pyfloat = Finite string | PosInf | NegInf | NaN

definition number_char :: "char \<Rightarrow> bool" where
  "number_char c = (c \<in> set ''0123456789+-.eE'')"

definition number_lexeme :: "string \<Rightarrow> bool" where
  "number_lexeme tok = (tok \<noteq> [] \<and> list_all number_char tok)"

definition read_number :: "string \<Rightarrow> (string \<times> string) option" where
  "read_number s =
     (case takeWhile number_char s of
        [] \<Rightarrow> None
      | c # cs \<Rightarrow> Some (c # cs, dropWhile number_char s))"

text \<open>An optional float and an optional string, written and read.\<close>

definition rating_text :: "pyfloat option \<Rightarrow> string" where
  "rating_text r =
     (case r of
        None \<Rightarrow> ''null''
      | Some (Finite tok) \<Rightarrow> tok
      | Some _ \<Rightarrow> ''null'')"

definition read_rating :: "string \<Rightarrow> (pyfloat option \<times> string) option" where
  "read_rating s =
     (case strip_prefix ''null'' s of
        Some r \<Rightarrow> Some (None, r)
      | None \<Rightarrow>
          (case read_number s of
             None \<Rightarrow> None
           | Some (tok, r) \<Rightarrow> Some (Some (Finite tok), r)))"

definition optional_string_text :: "string option \<Rightarrow> string" where
  "optional_string_text t = (case t of None \<Rightarrow> ''null'' | Some s \<Rightarrow> json_string s)"

definition read_optional_string :: "string \<Rightarrow> (string option \<times> string) option" where
  "read_optional_string s =
     (case strip_prefix ''null'' s of
        Some r \<Rightarrow> Some (None, r)
      | None \<Rightarrow>
          (case read_string s of
             None \<Rightarrow> None
           | Some (t, r) \<Rightarrow> Some (Some t, r)))"

text \<open>A key of an object with its colon.\<close>

definition json_key :: "string \<Rightarrow> string" where
  "json_key k = dq # k @ [dq, CHR '':'']"

text \<open>
  The three model classes and the two classes nested in them. A text is valid when the
  entity is read and nothing follows it.
\<close>

definition Genre_dump_json :: "Genre \<Rightarrow> string" where
  "Genre_dump_json g =
     ''{'' @ json_key ''id'' @ json_string (genre_id g) @
     '','' @ json_key ''name'' @ json_string (genre_name g) @
     '','' @ json_key ''description'' @ optional_string_text (genre_description g) @ ''}''"

definition read_Genre :: "string \<Rightarrow> (Genre \<times> string) option" where
  "read_Genre s = do {
     r \<leftarrow> strip_prefix (''{'' @ json_key ''id'') s;
     (i, r) \<leftarrow> read_string r;
     r \<leftarrow> strip_prefix ('','' @ json_key ''name'') r;
     (n, r) \<leftarrow> read_string r;
     r \<leftarrow> strip_prefix ('','' @ json_key ''description'') r;
     (d, r) \<leftarrow> read_optional_string r;
     r \<leftarrow> strip_prefix ''}'' r;
     Some (\<lparr>genre_id = i, genre_name = n, genre_description = d\<rparr>, r)
   }"

definition Genre_validate_json :: "string \<Rightarrow> error + Genre" where
  "Genre_validate_json s =
     (case read_Genre s of
        Some (g, []) \<Rightarrow> Inr g
      | _ \<Rightarrow> Inl ValidationError)"

definition PersonFilm_text :: "PersonFilm \<Rightarrow> string" where
  "PersonFilm_text pf =
     ''{'' @ json_key ''id'' @ json_string (pf_id pf) @
     '','' @ json_key ''roles'' @ json_array json_string (roles pf) @ ''}''"

definition read_PersonFilm :: "string \<Rightarrow> (PersonFilm \<times> string) option" where
  "read_PersonFilm s = do {
     r \<leftarrow> strip_prefix (''{'' @ json_key ''id'') s;
     (i, r) \<leftarrow> read_string r;
     r \<leftarrow> strip_prefix ('','' @ json_key ''roles'') r;
     (rs, r) \<leftarrow> read_array read_string r;
     r \<leftarrow> strip_prefix ''}'' r;
     Some (\<lparr>pf_id = i, roles = rs\<rparr>, r)
   }"

definition Person_dump_json :: "Person \<Rightarrow> string" where
  "Person_dump_json p =
     ''{'' @ json_key ''id'' @ json_string (person_id p) @
     '','' @ json_key ''full_name'' @ json_string (full_name p) @
     '','' @ json_key ''films'' @ json_array PersonFilm_text (films p) @ ''}''"

definition read_Person :: "string \<Rightarrow> (Person \<times> string) option" where
  "read_Person s = do {
     r \<leftarrow> strip_prefix (''{'' @ json_key ''id'') s;
     (i, r) \<leftarrow> read_string r;
     r \<leftarrow> strip_prefix ('','' @ json_key ''full_name'') r;
     (n, r) \<leftarrow> read_string r;
     r \<leftarrow> strip_prefix ('','' @ json_key ''films'') r;
     (fs, r) \<leftarrow> read_array read_PersonFilm r;
     r \<leftarrow> strip_prefix ''}'' r;
     Some (\<lparr>person_id = i, full_name = n, films = fs\<rparr>, r)
   }"

definition Person_validate_json :: "string \<Rightarrow> error + Person" where
  "Person_validate_json s =
     (case read_Person s of
        Some (p, []) \<Rightarrow> Inr p
      | _ \<Rightarrow> Inl ValidationError)"

definition FilmPerson_text :: "FilmPerson \<Rightarrow> string" where
  "FilmPerson_text fp =
     ''{'' @ json_key ''id'' @ json_string (fp_id fp) @
     '','' @ json_key ''name'' @ json_string (fp_name fp) @ ''}''"

definition read_FilmPerson :: "string \<Rightarrow> (FilmPerson \<times> string) option" where
  "read_FilmPerson s = do {
     r \<leftarrow> strip_prefix (''{'' @ json_key ''id'') s;
     (i, r) \<leftarrow> read_string r;
     r \<leftarrow> strip_prefix ('','' @ json_key ''name'') r;
     (n, r) \<leftarrow> read_string r;
     r \<leftarrow> strip_prefix ''}'' r;
     Some (\<lparr>fp_id = i, fp_name = n\<rparr>, r)
   }"

definition Film_dump_json :: "pyfloat Film \<Rightarrow> string" where
  "Film_dump_json f =
     ''{'' @ json_key ''id'' @ json_string (film_id f) @
     '','' @ json_key ''title'' @ json_string (title f) @
     '','' @ json_key ''description'' @ optional_string_text (description f) @
     '','' @ json_key ''imdb_rating'' @ rating_text (imdb_rating f) @
     '','' @ json_key ''actors'' @ json_array FilmPerson_text (actors f) @
     '','' @ json_key ''writers'' @ json_array FilmPerson_text (writers f) @
     '','' @ json_key ''directors'' @ json_array FilmPerson_text (directors f) @
     '','' @ json_key ''genres'' @ json_array json_string (genres f) @
     '','' @ json_key ''actors_names'' @ json_array json_string (actors_names f) @
     '','' @ json_key ''writers_names'' @ json_array json_string (writers_names f) @
     '','' @ json_key ''directors_names'' @ json_array json_string (directors_names f) @ ''}''"

definition read_Film :: "string \<Rightarrow> (pyfloat Film \<times> string) option" where
  "read_Film s = do {
     r \<leftarrow> strip_prefix (''{'' @ json_key ''id'') s;
     (i, r) \<leftarrow> read_string r;
     r \<leftarrow> strip_prefix ('','' @ json_key ''title'') r;
     (t, r) \<leftarrow> read_string r;
     r \<leftarrow> strip_prefix ('','' @ json_key ''description'') r;
     (d, r) \<leftarrow> read_optional_string r;
     r \<leftarrow> strip_prefix ('','' @ json_key ''imdb_rating'') r;
     (g, r) \<leftarrow> read_rating r;
     r \<leftarrow> strip_prefix ('','' @ json_key ''actors'') r;
     (a, r) \<leftarrow> read_array read_FilmPerson r;
     r \<leftarrow> strip_prefix ('','' @ json_key ''writers'') r;
     (w, r) \<leftarrow> read_array read_FilmPerson r;
     r \<leftarrow> strip_prefix ('','' @ json_key ''directors'') r;
     (ds, r) \<leftarrow> read_array read_FilmPerson r;
     r \<leftarrow> strip_prefix ('','' @ json_key ''genres'') r;
     (gs, r) \<leftarrow> read_array read_string r;
     r \<leftarrow> strip_prefix ('','' @ json_key ''actors_names'') r;
     (an, r) \<leftarrow> read_array read_string r;
     r \<leftarrow> strip_prefix ('','' @ json_key ''writers_names'') r;
     (wn, r) \<leftarrow> read_array read_string r;
     r \<leftarrow> strip_prefix ('','' @ json_key ''directors_names'') r;
     (dn, r) \<leftarrow> read_array read_string r;
     r \<leftarrow> strip_prefix ''}'' r;
     Some (\<lparr>film_id = i, title = t, description = d, imdb_rating = g, actors = a, writers = w,
            directors = ds, genres = gs, actors_names = an, writers_names = wn,
            directors_names = dn\<rparr>, r)
   }"

definition Film_validate_json :: "string \<Rightarrow> error + pyfloat Film" where
  "Film_validate_json s =
     (case read_Film s of
        Some (f, []) \<Rightarrow> Inr f
      | _ \<Rightarrow> Inl ValidationError)"

text \<open>
  The ratings on which the two sides agree (none, or a finite float), and the ratings that
  are written as \<^verbatim>\<open>null\<close>.
\<close>

definition rating_is_written :: "pyfloat option \<Rightarrow> bool" where
  "rating_is_written r =
     (case r of
        None \<Rightarrow> True
      | Some (Finite tok) \<Rightarrow> number_lexeme tok
      | Some _ \<Rightarrow> False)"

definition rating_is_not_finite :: "pyfloat option \<Rightarrow> bool" where
  "rating_is_not_finite r = (r = Some PosInf \<or> r = Some NegInf \<or> r = Some NaN)"

text \<open>
  The model classes with this JSON side. \<^verbatim>\<open>Genre(**d)\<close> is \<open>Genre_construct\<close>; the
  constructors of the two other classes stay a parameter.
\<close>

definition Genre_model :: "Genre model_class" where
  "Genre_model =
     \<lparr>construct = Genre_construct, model_validate = Genre_construct,
      model_validate_json = Genre_validate_json, model_dump_json = Genre_dump_json,
      item_id = genre_id\<rparr>"

definition Person_model :: "(raw \<Rightarrow> error + Person) \<Rightarrow> Person model_class" where
  "Person_model mk =
     \<lparr>construct = mk, model_validate = mk,
      model_validate_json = Person_validate_json, model_dump_json = Person_dump_json,
      item_id = person_id\<rparr>"

definition Film_model :: "(raw \<Rightarrow> error + pyfloat Film) \<Rightarrow> pyfloat Film model_class" where
  "Film_model mk =
     \<lparr>construct = mk, model_validate = mk,
      model_validate_json = Film_validate_json, model_dump_json = Film_dump_json,
      item_id = film_id\<rparr>"

text \<open>\<^verbatim>\<open>PersonService.__init__\<close> (\<^verbatim>\<open>services/person.py\<close>), without the film service.\<close>

definition PersonService :: "search_service \<Rightarrow> Person model_class \<Rightarrow> Person Service" where
  "PersonService ss m = \<lparr>search_service_of = ss, entity_name = ''persons'', model = m\<rparr>"

text \<open>
  Not a function of the sources: \<^verbatim>\<open>_put_to_cache\<close> of an entity followed by
  \<^verbatim>\<open>_get_from_cache\<close> of its id.
\<close>

definition put_then_get :: "'e Service \<Rightarrow> world \<Rightarrow> 'e \<Rightarrow> error + 'e option" where
  "put_then_get svc w item =
     (case Service_put_to_cache svc w item of
        Inl e \<Rightarrow> Inl e
      | Inr w' \<Rightarrow> Service_get_from_cache svc w' (item_id (model svc) item))"

text \<open>Example data: a film with a rating of 8.5, without a rating, with an infinite one.\<close>

definition rated_film :: "pyfloat Film" where
  "rated_film =
     \<lparr>film_id = ''f1'', title = ''A film'', description = None, imdb_rating = Some (Finite ''8.5''),
      actors = [\<lparr>fp_id = ''p1'', fp_name = ''Alice''\<rparr>], writers = [],
      directors = [\<lparr>fp_id = ''p1'', fp_name = ''Alice''\<rparr>], genres = [''Drama''],
      actors_names = [''Alice''], writers_names = [], directors_names = [''Alice'']\<rparr>"

definition unrated_film :: "pyfloat Film" where
  "unrated_film = rated_film\<lparr>imdb_rating := None\<rparr>"

definition infinite_film :: "pyfloat Film" where
  "infinite_film = rated_film\<lparr>imdb_rating := Some PosInf\<rparr>"

definition alice_with_films :: Person where
  "alice_with_films =
     alice\<lparr>films := [\<lparr>pf_id = ''f1'', roles = [''actor'', ''director'']\<rparr>,
                      \<lparr>pf_id = ''f2'', roles = [''writer'']\<rparr>]\<rparr>"

text \<open>A constructor that rejects every document, where the examples do not construct.\<close>

definition no_constructor :: "raw \<Rightarrow> error + 'e" where
  "no_constructor d = Inl ValidationError"

section \<open>Pagination and sorting\<close>

lemma from_offset_formula:
  "from_offset params = page_size params * (page_number params - 1)"
  by (simp add: from_offset_def algebra_simps)

lemma sort_entry_nonempty:
  "f \<noteq> [] \<Longrightarrow> sort_entry f = Inr (spec_sort_directive f)"
  by (cases f) (simp_all add: sort_entry_def spec_sort_directive_def)

lemma sort_entry_empty: "sort_entry [] = Inl IndexError"
  by (simp add: sort_entry_def)

lemma sort_entries_nonempty:
  "\<forall>f \<in> set fs. f \<noteq> [] \<Longrightarrow> sort_entries fs = Inr (map spec_sort_directive fs)"
  by (induction fs) (simp_all add: sort_entry_nonempty)

lemma sort_entries_empty:
  "[] \<in> set fs \<Longrightarrow> sort_entries fs = Inl IndexError"
proof (induction fs)
  case Nil
  then show ?case by simp
next
  case (Cons f fs)
  show ?case
  proof (cases "f = []")
    case True
    then show ?thesis by (simp add: sort_entry_empty)
  next
    case False
    with Cons have "sort_entries fs = Inl IndexError" by simp
    with False show ?thesis by (simp add: sort_entry_nonempty)
  qed
qed

lemma sort_clause_nonempty:
  "\<forall>f \<in> set (sort_param params). f \<noteq> [] \<Longrightarrow>
   sort_clause params = Inr (map spec_sort_directive (sort_param params) @ [(''_score'', ''desc'')])"
  by (simp add: sort_clause_def sort_entries_nonempty)

lemma sort_clause_empty:
  "[] \<in> set (sort_param params) \<Longrightarrow> sort_clause params = Inl IndexError"
  by (simp add: sort_clause_def sort_entries_empty)

lemma search_request_ok:
  assumes "\<forall>f \<in> set (sort_param params). f \<noteq> []"
  shows "search_request index (Some params) nested q =
           Inr \<lparr>req_index = index, req_size = page_size params, req_from = from_offset params,
                req_query = Bool (case q of None \<Rightarrow> [] | Some c \<Rightarrow> [c])
                                 (map nested_clause (case nested of None \<Rightarrow> [] | Some ns \<Rightarrow> ns)) [],
                req_sort = map spec_sort_directive (sort_param params) @ [(''_score'', ''desc'')]\<rparr>"
  using assms by (simp add: search_request_def Let_def sort_clause_nonempty)

lemma search_request_default:
  "search_request index None nested q =
           Inr \<lparr>req_index = index, req_size = 10, req_from = 0,
                req_query = Bool (case q of None \<Rightarrow> [] | Some c \<Rightarrow> [c])
                                 (map nested_clause (case nested of None \<Rightarrow> [] | Some ns \<Rightarrow> ns)) [],
                req_sort = [(''_score'', ''desc'')]\<rparr>"
  by (simp add: search_request_def Let_def sort_clause_def CommonQueryParams_default_def from_offset_def)

lemma search_request_fail:
  "[] \<in> set (sort_param params) \<Longrightarrow> search_request index (Some params) nested q = Inl IndexError"
  by (simp add: search_request_def Let_def sort_clause_empty)





text \<open>
  Claim C9. A request is built exactly when every sort directive is a non-empty string;
  a list that holds the empty string makes the character access raise \<open>IndexError\<close>.
\<close>

theorem sort_parsing_total_iff_nonempty:
  "((\<exists>req. search_request index (Some params) nested q = Inr req) \<longleftrightarrow>
      (\<forall>f \<in> set (sort_param params). f \<noteq> [])) \<and>
   ([] \<in> set (sort_param params) \<longrightarrow>
      search_request index (Some params) nested q = Inl IndexError \<and>
      sort_clause params = Inl IndexError)"
proof -
  have "search_request index (Some params) nested q = Inl IndexError \<and>
        sort_clause params = Inl IndexError"
    if "[] \<in> set (sort_param params)"
    using that by (simp add: search_request_fail sort_clause_empty)
  moreover have "\<exists>req. search_request index (Some params) nested q = Inr req"
    if "\<forall>f \<in> set (sort_param params). f \<noteq> []"
    using that by (simp add: search_request_ok)
  ultimately show ?thesis by (metis sum.distinct(1))
qed

theorem sort_parsing_total_iff_nonempty_witness:
  "search_request ''movies'' (Some \<lparr>page_number = 1, page_size = 10, sort_param = ['''']\<rparr>)
     None None = Inl IndexError \<and>
   sort_clause \<lparr>page_number = 1, page_size = 10, sort_param = ['''']\<rparr> = Inl IndexError \<and>
   (\<exists>req. search_request ''movies'' (Some \<lparr>page_number = 1, page_size = 10, sort_param = [''-title'']\<rparr>)
            None None = Inr req)"
  using sort_parsing_total_iff_nonempty
          [of "''movies''" "\<lparr>page_number = 1, page_size = 10, sort_param = ['''']\<rparr>" None None]
        sort_parsing_total_iff_nonempty
          [of "''movies''" "\<lparr>page_number = 1, page_size = 10, sort_param = [''-title'']\<rparr>" None None]
  by simp

section \<open>Roles of a person\<close>

lemma add_roles_PERSON_ROLES:
  "add_roles person filmwork PERSON_ROLES pf =
     Inr (pf\<lparr>roles := roles pf @ derived_roles person filmwork\<rparr>)"
  by (simp add: PERSON_ROLES_def getattr_names_def derived_roles_def spec_role_names_def)

lemma roles_loop_eq:
  "roles_loop person fs result =
     Inr (result @ map (\<lambda>f. \<lparr>pf_id = film_id f, roles = derived_roles person f\<rparr>) fs)"
  by (induction fs arbitrary: result) (simp_all add: add_roles_PERSON_ROLES)

lemma get_roles_from_filmworks_eq:
  "get_roles_from_filmworks person fs =
     Inr (map (\<lambda>f. \<lparr>pf_id = film_id f, roles = derived_roles person f\<rparr>) fs)"
  by (simp add: get_roles_from_filmworks_def roles_loop_eq)

lemma set_derived_roles: "set (derived_roles person f) = spec_roles person f"
  by (auto simp: derived_roles_def spec_roles_def PERSON_ROLES_def)

lemma distinct_derived_roles: "distinct (derived_roles person f)"
  by (simp add: derived_roles_def PERSON_ROLES_def)

lemma spec_roles_alice: "spec_roles alice alice_film = {''actor'', ''director''}"
  by (auto simp: spec_roles_def spec_role_names_def alice_def alice_film_def)

text \<open>
  Claim C3. Role derivation never fails and returns one entry per film, in the order of
  the films and with the film's id; the roles of an entry are exactly the labels among
  actor, writer and director under whose name list of that film the person's full name
  stands, each once. For Alice, acting in and directing a film that has no writers, they
  are actor and director, and not writer.
\<close>

theorem roles_are_the_name_memberships:
  "\<exists>pfs. get_roles_from_filmworks person fs = Inr pfs \<and>
         map pf_id pfs = map film_id fs \<and>
         (\<forall>i < length fs. set (roles (pfs ! i)) = spec_roles person (fs ! i) \<and>
                           distinct (roles (pfs ! i)))"
  by (simp add: get_roles_from_filmworks_eq set_derived_roles distinct_derived_roles comp_def)

theorem roles_are_the_name_memberships_witness:
  "\<exists>pfs. get_roles_from_filmworks alice [alice_film] = Inr pfs \<and>
         map pf_id pfs = [''f1''] \<and>
         set (roles (pfs ! 0)) = {''actor'', ''director''} \<and>
         ''writer'' \<notin> set (roles (pfs ! 0))"
proof -
  from roles_are_the_name_memberships [of alice "[alice_film]"]
  obtain pfs where p: "get_roles_from_filmworks alice [alice_film] = Inr pfs"
    "map pf_id pfs = map film_id [alice_film]"
    "set (roles (pfs ! 0)) = spec_roles alice ([alice_film] ! 0)"
    by auto
  from p(3) have "set (roles (pfs ! 0)) = {''actor'', ''director''}"
    by (simp add: spec_roles_alice)
  with p(1,2) show ?thesis by (auto simp: alice_film_def)
qed

section \<open>The cache\<close>

text \<open>
  Claim C8, at a backend that is down: \<^verbatim>\<open>get\<close> raises the service's
  \<open>ConnectionCacheError\<close>, and \<^verbatim>\<open>put\<close>, which has no handler, raises the client's own
  connection error instead.
\<close>

theorem put_raises_the_client_error:
  "\<not> redis_up w \<Longrightarrow>
   RedisCache_get w key = Inl ConnectionCacheError \<and>
   RedisCache_put w key val ttl = Inl RedisConnectionError"
  by (simp add: RedisCache_get_def RedisCache_put_def redis_get_def redis_set_def)

theorem put_raises_the_client_error_witness:
  "RedisCache_get world_down ''genres_g1'' = Inl ConnectionCacheError \<and>
   RedisCache_put world_down ''genres_g1'' ''{}'' 300 = Inl RedisConnectionError \<and>
   RedisCache_put world_down ''genres_g1'' ''{}'' 300 \<noteq> Inl ConnectionCacheError"
  using put_raises_the_client_error [of world_down "''genres_g1''" "''{}''" 300]
  by (simp add: world_down_def)

section \<open>The generic service\<close>

lemma get_from_cache_hit:
  assumes "redis_up w" "redis_data w (entity_name svc @ ''_'' @ ident) = Some (data, ttl)" "data \<noteq> []"
  shows "Service_get_from_cache svc w ident =
           (case model_validate_json (model svc) data of Inl e \<Rightarrow> Inl e | Inr item \<Rightarrow> Inr (Some item))"
  using assms by (simp add: Service_get_from_cache_def RedisCache_get_def redis_get_def)

lemma get_from_cache_miss:
  assumes "redis_up w"
    "redis_data w (entity_name svc @ ''_'' @ ident) = None \<or>
     (\<exists>ttl. redis_data w (entity_name svc @ ''_'' @ ident) = Some ([], ttl))"
  shows "Service_get_from_cache svc w ident = Inr None"
  using assms by (auto simp: Service_get_from_cache_def RedisCache_get_def redis_get_def)

lemma adapter_get_found:
  "es_get (elastic ss) (es_log w) (es_index ss) ident = Inr hit \<Longrightarrow>
   ElasticSearchService_get_by_id ss w ident =
     (Inr (Some (hit_source hit)), log_call w (EsGet (es_index ss) ident))"
  by (simp add: ElasticSearchService_get_by_id_def Let_def)

lemma adapter_get_absent:
  "es_get (elastic ss) (es_log w) (es_index ss) ident = Inl NotFoundError \<Longrightarrow>
   ElasticSearchService_get_by_id ss w ident =
     (Inr None, log_call w (EsGet (es_index ss) ident))"
  by (simp add: ElasticSearchService_get_by_id_def Let_def)

lemma put_to_cache_up:
  "redis_up w \<Longrightarrow>
   Service_put_to_cache svc w item =
     Inr (w\<lparr>redis_data := (redis_data w)
            (entity_name svc @ ''_'' @ item_id (model svc) item \<mapsto>
               (model_dump_json (model svc) item, 300))\<rparr>)"
  by (simp add: Service_put_to_cache_def RedisCache_put_def redis_set_def CACHE_EXPIRE_IN_SECONDS_def)

lemma redis_up_log_call [simp]: "redis_up (log_call w c) = redis_up w"
  by (simp add: log_call_def)

lemma redis_data_log_call [simp]: "redis_data (log_call w c) = redis_data w"
  by (simp add: log_call_def)

lemma error_log_log_call [simp]: "error_log (log_call w c) = error_log w"
  by (simp add: log_call_def)

lemma es_log_log_call [simp]: "es_log (log_call w c) = es_log w @ [c]"
  by (simp add: log_call_def)

text \<open>
  Claim C5. With the cache reachable, \<^verbatim>\<open>get_by_id\<close> reads through the cache. On a hit
  (non-empty data that deserializes) it returns the cached entity and the world is
  unchanged: the engine receives no call. On a miss (no data, or empty data) it asks the
  engine once, by id; a non-empty document that hydrates is written to the cache under
  the entity's key with a time to live of 300 seconds and returned; when the engine
  reports not-found the result is absent, nothing is raised and the cache is unchanged.
\<close>

theorem get_by_id_is_cache_aside:
  assumes "redis_up w"
  shows
    "(\<forall>data ttl item.
        redis_data w (entity_name svc @ ''_'' @ ident) = Some (data, ttl) \<and> data \<noteq> [] \<and>
        model_validate_json (model svc) data = Inr item \<longrightarrow>
        Service_get_by_id svc w ident = (Inr (Some item), w)) \<and>
     (redis_data w (entity_name svc @ ''_'' @ ident) = None \<or>
      (\<exists>ttl. redis_data w (entity_name svc @ ''_'' @ ident) = Some ([], ttl)) \<longrightarrow>
        (\<forall>hit item.
           es_get (elastic (search_service_of svc)) (es_log w)
             (es_index (search_service_of svc)) ident = Inr hit \<and>
           hit_source hit \<noteq> [] \<and> construct (model svc) (hit_source hit) = Inr item \<longrightarrow>
           Service_get_by_id svc w ident =
             (Inr (Some item),
              (log_call w (EsGet (es_index (search_service_of svc)) ident))
                \<lparr>redis_data := (redis_data w)
                   (entity_name svc @ ''_'' @ item_id (model svc) item \<mapsto>
                      (model_dump_json (model svc) item, 300))\<rparr>)) \<and>
        (es_get (elastic (search_service_of svc)) (es_log w)
           (es_index (search_service_of svc)) ident = Inl NotFoundError \<longrightarrow>
           Service_get_by_id svc w ident =
             (Inr None, log_call w (EsGet (es_index (search_service_of svc)) ident))))"
proof (intro conjI allI impI)
  fix data ttl item
  assume "redis_data w (entity_name svc @ ''_'' @ ident) = Some (data, ttl) \<and> data \<noteq> [] \<and>
          model_validate_json (model svc) data = Inr item"
  with assms show "Service_get_by_id svc w ident = (Inr (Some item), w)"
    by (simp add: Service_get_by_id_def get_from_cache_hit)
next
  fix hit item
  assume miss: "redis_data w (entity_name svc @ ''_'' @ ident) = None \<or>
      (\<exists>ttl. redis_data w (entity_name svc @ ''_'' @ ident) = Some ([], ttl))"
    and found: "es_get (elastic (search_service_of svc)) (es_log w)
             (es_index (search_service_of svc)) ident = Inr hit \<and>
           hit_source hit \<noteq> [] \<and> construct (model svc) (hit_source hit) = Inr item"
  from assms miss have "Service_get_from_cache svc w ident = Inr None"
    by (rule get_from_cache_miss)
  with found assms show "Service_get_by_id svc w ident =
             (Inr (Some item),
              (log_call w (EsGet (es_index (search_service_of svc)) ident))
                \<lparr>redis_data := (redis_data w)
                   (entity_name svc @ ''_'' @ item_id (model svc) item \<mapsto>
                      (model_dump_json (model svc) item, 300))\<rparr>)"
    by (simp add: Service_get_by_id_def adapter_get_found put_to_cache_up)
next
  assume miss: "redis_data w (entity_name svc @ ''_'' @ ident) = None \<or>
      (\<exists>ttl. redis_data w (entity_name svc @ ''_'' @ ident) = Some ([], ttl))"
    and absent: "es_get (elastic (search_service_of svc)) (es_log w)
           (es_index (search_service_of svc)) ident = Inl NotFoundError"
  from assms miss have "Service_get_from_cache svc w ident = Inr None"
    by (rule get_from_cache_miss)
  with absent show "Service_get_by_id svc w ident =
             (Inr None, log_call w (EsGet (es_index (search_service_of svc)) ident))"
    by (simp add: Service_get_by_id_def adapter_get_absent)
qed

lemma example_es_get_g1:
  "es_get example_engine calls ''genres'' ''g1'' = Inr \<lparr>hit_id = ''g1'', hit_source = drama_doc\<rparr>"
  by (simp add: example_engine_def reference_engine_def genre_hits_def)

lemma example_es_get_missing:
  "es_get example_engine calls ''genres'' ''g9'' = Inl NotFoundError"
  by (simp add: example_engine_def reference_engine_def genre_hits_def)

lemma construct_drama: "Genre_construct drama_doc = Inr drama"
  by (simp add: Genre_construct_def drama_doc_def drama_def)

theorem get_by_id_is_cache_aside_witness:
  "Service_get_by_id example_genres world_cached ''g1'' = (Inr (Some drama), world_cached) \<and>
   fst (Service_get_by_id example_genres world_empty ''g1'') = Inr (Some drama) \<and>
   es_log (snd (Service_get_by_id example_genres world_empty ''g1'')) = [EsGet ''genres'' ''g1''] \<and>
   redis_data (snd (Service_get_by_id example_genres world_empty ''g1'')) ''genres_g1'' =
     Some (drama_json, 300) \<and>
   fst (Service_get_by_id example_genres world_empty ''g9'') = Inr None \<and>
   es_log (snd (Service_get_by_id example_genres world_empty ''g9'')) = [EsGet ''genres'' ''g9''] \<and>
   redis_data (snd (Service_get_by_id example_genres world_empty ''g9'')) = Map.empty"
proof -
  have up: "redis_up world_cached" "redis_up world_empty"
    by (simp_all add: world_cached_def world_empty_def)
  have svc: "entity_name example_genres = ''genres''"
    "model example_genres = example_genre_model"
    "search_service_of example_genres = \<lparr>elastic = example_engine, es_index = ''genres''\<rparr>"
    by (simp_all add: example_genres_def GenreService_def)
  have cached: "redis_data world_cached (entity_name example_genres @ ''_'' @ ''g1'') =
      Some (drama_json, 300) \<and> drama_json \<noteq> [] \<and>
      model_validate_json (model example_genres) drama_json = Inr drama"
    by (simp add: svc world_cached_def world_empty_def example_genre_model_def) (simp add: drama_json_def)
  have miss: "redis_data world_empty (entity_name example_genres @ ''_'' @ i) = None \<or>
      (\<exists>ttl. redis_data world_empty (entity_name example_genres @ ''_'' @ i) = Some ([], ttl))" for i
    by (simp add: world_empty_def)
  have hit: "Service_get_by_id example_genres world_cached ''g1'' = (Inr (Some drama), world_cached)"
    using get_by_id_is_cache_aside [OF up(1), of example_genres "''g1''",
        THEN conjunct1, rule_format, OF cached] .
  have "Service_get_by_id example_genres world_empty ''g1'' =
      (Inr (Some drama), (log_call world_empty (EsGet ''genres'' ''g1''))
         \<lparr>redis_data := (redis_data world_empty)
            (entity_name example_genres @ ''_'' @ item_id (model example_genres) drama \<mapsto>
             (model_dump_json (model example_genres) drama, 300))\<rparr>)"
    using get_by_id_is_cache_aside [OF up(2), of example_genres "''g1''",
        THEN conjunct2, THEN mp, OF miss, THEN conjunct1, rule_format,
        of "\<lparr>hit_id = ''g1'', hit_source = drama_doc\<rparr>" drama]
    by (simp add: svc example_es_get_g1 construct_drama example_genre_model_def) (simp add: drama_doc_def)
  then have found: "Service_get_by_id example_genres world_empty ''g1'' =
      (Inr (Some drama), (log_call world_empty (EsGet ''genres'' ''g1''))
         \<lparr>redis_data := (redis_data world_empty)(''genres_g1'' \<mapsto> (drama_json, 300))\<rparr>)"
    by (simp add: svc example_genre_model_def drama_def)
  have absent: "Service_get_by_id example_genres world_empty ''g9'' =
      (Inr None, log_call world_empty (EsGet ''genres'' ''g9''))"
    using get_by_id_is_cache_aside [OF up(2), of example_genres "''g9''",
        THEN conjunct2, THEN mp, OF miss, THEN conjunct2]
    by (simp add: svc example_es_get_missing)
  show ?thesis
    by (simp add: hit found absent) (simp add: world_empty_def)
qed

lemma text_search_one_field:
  "ElasticSearchService_text_search ss w (Some search_text) [search_field] None =
     (case es_search (elastic ss) (es_log w)
             (text_field_request (es_index ss) search_field search_text) of
        Inl e \<Rightarrow> Inl (EngineError e)
      | Inr hits \<Rightarrow> Inr (map hit_source hits),
      log_call w (EsSearch (text_field_request (es_index ss) search_field search_text)))"
  by (simp add: ElasticSearchService_text_search_def ElasticSearchService_search_def
      search_request_default text_query_def text_field_request_def Let_def split: sum.splits)

text \<open>
  Claim C10. \<^verbatim>\<open>get_by_text_field\<close> sends the same search twice: one field (a match with
  automatic fuzziness on it, or no text clause for the empty text), the default page
  (size 10 from 0) and the score as the only sort entry. When neither call raises, the
  hits of the first call play no part: the result is the entity validated from the first
  hit of the second call, absent when that call has no hit, or the validation error.
\<close>

theorem get_by_text_field_searches_twice:
  assumes "es_search (elastic (search_service_of svc)) (es_log w) req = Inr first_hits"
    and "es_search (elastic (search_service_of svc)) (es_log w @ [EsSearch req]) req = Inr hits"
    and "req = text_field_request (es_index (search_service_of svc)) search_field search_text"
  shows "Service_get_by_text_field svc w search_field search_text =
           ((case hits of
               [] \<Rightarrow> Inr None
             | h # _ \<Rightarrow>
                 (case model_validate (model svc) (hit_source h) of
                    Inl e \<Rightarrow> Inl e
                  | Inr item \<Rightarrow> Inr (Some item))),
            w\<lparr>es_log := es_log w @ [EsSearch req, EsSearch req]\<rparr>)"
  using assms
  by (simp add: Service_get_by_text_field_def text_search_one_field log_call_def
      split: list.splits sum.splits)

theorem get_by_text_field_searches_twice_witness:
  "fst (Service_get_by_text_field late_genres world_empty ''name'' ''Drama'') = Inr (Some drama) \<and>
   es_log (snd (Service_get_by_text_field late_genres world_empty ''name'' ''Drama'')) =
     [EsSearch (text_field_request ''genres'' ''name'' ''Drama''),
      EsSearch (text_field_request ''genres'' ''name'' ''Drama'')] \<and>
   req_query (text_field_request ''genres'' ''name'' ''Drama'') =
     Bool [Match ''name'' ''Drama'' ''auto''] [] []"
proof -
  have svc: "search_service_of late_genres = \<lparr>elastic = late_engine, es_index = ''genres''\<rparr>"
    "model late_genres = example_genre_model"
    by (simp_all add: late_genres_def GenreService_def)
  have first: "es_search (elastic (search_service_of late_genres)) (es_log world_empty)
      (text_field_request ''genres'' ''name'' ''Drama'') = Inr []"
    by (simp add: svc late_engine_def world_empty_def)
  have second: "es_search (elastic (search_service_of late_genres))
      (es_log world_empty @ [EsSearch (text_field_request ''genres'' ''name'' ''Drama'')])
      (text_field_request ''genres'' ''name'' ''Drama'') =
        Inr [\<lparr>hit_id = ''g1'', hit_source = drama_doc\<rparr>]"
    by (simp add: svc late_engine_def world_empty_def)
  have "Service_get_by_text_field late_genres world_empty ''name'' ''Drama'' =
      (Inr (Some drama),
       world_empty\<lparr>es_log := es_log world_empty @
         [EsSearch (text_field_request ''genres'' ''name'' ''Drama''),
          EsSearch (text_field_request ''genres'' ''name'' ''Drama'')]\<rparr>)"
    using get_by_text_field_searches_twice [OF first second, of "''name''" "''Drama''"]
    by (simp add: svc example_genre_model_def construct_drama)
  then show ?thesis
    by (simp add: world_empty_def) (simp add: text_field_request_def)
qed

section \<open>Documents that do not hydrate\<close>

lemma construct_all_fails:
  "d \<in> set ds \<Longrightarrow> mk d = Inl e \<Longrightarrow> \<exists>e'. construct_all mk ds = Inl e'"
  by (induction ds) (auto split: sum.splits)

lemma adapter_search_error_log:
  "ElasticSearchService_search ss w params nested q = (r, w1) \<Longrightarrow> error_log w1 = error_log w"
  by (auto simp: ElasticSearchService_search_def Let_def split: sum.splits)

lemma text_search_error_log:
  "ElasticSearchService_text_search ss w t fs params = (r, w1) \<Longrightarrow> error_log w1 = error_log w"
  by (simp add: ElasticSearchService_text_search_def adapter_search_error_log)

text \<open>The sibling: \<^verbatim>\<open>GenreService.get_by_id\<close> logs the document and returns absent.\<close>

lemma genre_get_by_id_logs:
  assumes "redis_up w"
    and "redis_data w (entity_name svc @ ''_'' @ ident) = None"
    and "es_get (elastic (search_service_of svc)) (es_log w)
           (es_index (search_service_of svc)) ident = Inr hit"
    and "hit_source hit \<noteq> []"
    and "Genre_construct (hit_source hit) = Inl ValidationError"
  shows "GenreService_get_by_id svc w ident =
           (Inr None,
            (log_call w (EsGet (es_index (search_service_of svc)) ident))
              \<lparr>error_log := error_log w @ [hit_source hit]\<rparr>)"
  using assms
  by (simp add: GenreService_get_by_id_def get_from_cache_miss adapter_get_found)

text \<open>
  Claim C4, where the code departs from it. On a cache miss, a document that the model's
  constructor rejects makes \<^verbatim>\<open>Service.get_by_id\<close> raise the validation error: the result
  is not absent and nothing is logged. In \<^verbatim>\<open>FilmService.search\<close> one rejected document
  among the hits makes the whole search raise, and nothing is logged either.
\<close>

theorem hydration_failure_is_raised:
  assumes "redis_up w"
    and "redis_data w (entity_name svc @ ''_'' @ ident) = None"
    and "es_get (elastic (search_service_of svc)) (es_log w)
           (es_index (search_service_of svc)) ident = Inr hit"
    and "hit_source hit \<noteq> []"
    and "construct (model svc) (hit_source hit) = Inl ValidationError"
  shows "Service_get_by_id svc w ident =
           (Inl ValidationError, log_call w (EsGet (es_index (search_service_of svc)) ident)) \<and>
         error_log (snd (Service_get_by_id svc w ident)) = error_log w \<and>
         (\<forall>films text query_params raw_films w1 d.
            ElasticSearchService_text_search (search_service_of films) w (Some text)
              [''title^3'', ''description'', ''actors_names'', ''writers_names'', ''directors_names'']
              (Some query_params) = (Inr raw_films, w1) \<and>
            d \<in> set raw_films \<and> construct (model films) d = Inl ValidationError \<longrightarrow>
            (\<exists>e. FilmService_search (films :: 'f Film Service) w text query_params = (Inl e, w1)) \<and>
            error_log w1 = error_log w)"
proof -
  have a: "Service_get_by_id svc w ident =
      (Inl ValidationError, log_call w (EsGet (es_index (search_service_of svc)) ident))"
    using assms by (simp add: Service_get_by_id_def get_from_cache_miss adapter_get_found)
  have b: "(\<exists>e. FilmService_search films w t query_params = (Inl e, w1)) \<and>
           error_log w1 = error_log w"
    if "ElasticSearchService_text_search (search_service_of films) w (Some t)
              [''title^3'', ''description'', ''actors_names'', ''writers_names'', ''directors_names'']
              (Some query_params) = (Inr raw_films, w1) \<and>
            d \<in> set raw_films \<and> construct (model films) d = Inl ValidationError"
    for films :: "'f Film Service" and t query_params raw_films w1 d
  proof -
    from that obtain e where "construct_all (construct (model films)) raw_films = Inl e"
      using construct_all_fails by blast
    moreover from that have "error_log w1 = error_log w"
      by (blast intro: text_search_error_log)
    ultimately show ?thesis
      using that by (simp add: FilmService_search_def Let_def)
  qed
  from a b show ?thesis by simp blast
qed

lemma example_es_get_g2:
  "es_get example_engine calls ''genres'' ''g2'' = Inr \<lparr>hit_id = ''g2'', hit_source = broken_doc\<rparr>"
  by (simp add: example_engine_def reference_engine_def genre_hits_def)

lemma construct_broken: "Genre_construct broken_doc = Inl ValidationError"
  by (simp add: Genre_construct_def broken_doc_def)

lemma example_genres_simps:
  "entity_name example_genres = ''genres''"
  "model example_genres = example_genre_model"
  "search_service_of example_genres = \<lparr>elastic = example_engine, es_index = ''genres''\<rparr>"
  "construct example_genre_model = Genre_construct"
  by (simp_all add: example_genres_def GenreService_def example_genre_model_def)

lemma example_films_simps:
  "entity_name example_films = ''movies''"
  "model example_films = example_film_model"
  "search_service_of example_films = \<lparr>elastic = example_engine, es_index = ''movies''\<rparr>"
  by (simp_all add: example_films_def FilmService_def)

lemma alice_search_hits:
  "ElasticSearchService_text_search \<lparr>elastic = example_engine, es_index = ''movies''\<rparr> world_empty
     (Some ''Alice'')
     [''title^3'', ''description'', ''actors_names'', ''writers_names'', ''directors_names'']
     (Some CommonQueryParams_default) =
   (Inr [film_one_doc, film_two_doc, film_three_doc],
    log_call world_empty (EsSearch
      \<lparr>req_index = ''movies'', req_size = 10, req_from = 0,
       req_query = Bool [Multi_match ''Alice''
         [''title^3'', ''description'', ''actors_names'', ''writers_names'', ''directors_names'']] [] [],
       req_sort = [(''_score'', ''desc'')]\<rparr>))"
proof -
  have m: "exact_text (Multi_match ''Alice''
         [''title^3'', ''description'', ''actors_names'', ''writers_names'', ''directors_names'']) d"
    if "d \<in> {film_one_doc, film_two_doc, film_three_doc}" for d
    using that by (auto simp: exact_text_def field_is_def film_one_doc_def film_two_doc_def film_three_doc_def)
  show ?thesis
    by (simp add: ElasticSearchService_text_search_def ElasticSearchService_search_def
        search_request_ok CommonQueryParams_default_def text_query_def Let_def from_offset_def
        example_engine_def reference_engine_def reference_search_def movie_hits_def m)
qed

theorem hydration_failure_is_raised_witness:
  "Service_get_by_id example_genres world_empty ''g2'' =
     (Inl ValidationError, log_call world_empty (EsGet ''genres'' ''g2'')) \<and>
   error_log (snd (Service_get_by_id example_genres world_empty ''g2'')) = [] \<and>
   fst (GenreService_get_by_id example_genres world_empty ''g2'') = Inr None \<and>
   error_log (snd (GenreService_get_by_id example_genres world_empty ''g2'')) = [broken_doc] \<and>
   (\<exists>e. fst (FilmService_search example_films world_empty ''Alice'' CommonQueryParams_default) = Inl e) \<and>
   error_log (snd (FilmService_search example_films world_empty ''Alice'' CommonQueryParams_default)) = []"
proof -
  have up: "redis_up world_empty"
    and miss: "redis_data world_empty (entity_name example_genres @ ''_'' @ ''g2'') = None"
    and el: "error_log world_empty = []"
    by (simp_all add: world_empty_def)
  have hit: "es_get (elastic (search_service_of example_genres)) (es_log world_empty)
      (es_index (search_service_of example_genres)) ''g2'' = Inr \<lparr>hit_id = ''g2'', hit_source = broken_doc\<rparr>"
    by (simp add: example_genres_simps example_es_get_g2)
  have ne: "hit_source \<lparr>hit_id = ''g2'', hit_source = broken_doc\<rparr> \<noteq> []"
    by (simp add: broken_doc_def)
  have bad: "construct (model example_genres) (hit_source \<lparr>hit_id = ''g2'', hit_source = broken_doc\<rparr>) =
      Inl ValidationError"
    by (simp add: example_genres_simps construct_broken)
  note T = hydration_failure_is_raised [OF up miss hit ne bad]
  have bad3: "construct (model example_films) film_three_doc = Inl ValidationError"
    by (simp add: example_films_simps example_film_model_def)
      (simp add: film_one_doc_def film_two_doc_def film_three_doc_def)
  have film: "(\<exists>e. FilmService_search example_films world_empty ''Alice'' CommonQueryParams_default =
        (Inl e, log_call world_empty (EsSearch
      \<lparr>req_index = ''movies'', req_size = 10, req_from = 0,
       req_query = Bool [Multi_match ''Alice''
         [''title^3'', ''description'', ''actors_names'', ''writers_names'', ''directors_names'']] [] [],
       req_sort = [(''_score'', ''desc'')]\<rparr>)))"
    using T [THEN conjunct2, THEN conjunct2, rule_format, of example_films "''Alice''"
        CommonQueryParams_default "[film_one_doc, film_two_doc, film_three_doc]" _ film_three_doc]
      alice_search_hits bad3
    by (simp add: example_films_simps)
  have sib: "GenreService_get_by_id example_genres world_empty ''g2'' =
      (Inr None, (log_call world_empty (EsGet ''genres'' ''g2''))\<lparr>error_log := [broken_doc]\<rparr>)"
    using genre_get_by_id_logs [OF up miss hit ne] bad
    by (simp add: example_genres_simps el)
  from film obtain e where e: "FilmService_search example_films world_empty ''Alice'' CommonQueryParams_default =
        (Inl e, log_call world_empty (EsSearch
      \<lparr>req_index = ''movies'', req_size = 10, req_from = 0,
       req_query = Bool [Multi_match ''Alice''
         [''title^3'', ''description'', ''actors_names'', ''writers_names'', ''directors_names'']] [] [],
       req_sort = [(''_score'', ''desc'')]\<rparr>))" by blast
  have g: "Service_get_by_id example_genres world_empty ''g2'' =
     (Inl ValidationError, log_call world_empty (EsGet ''genres'' ''g2''))"
    using T [THEN conjunct1] by (simp add: example_genres_simps)
  show ?thesis
    by (simp add: g sib e el)
qed

section \<open>Films of a person\<close>

lemma mset_take_subset: "mset (take n xs) \<subseteq># mset xs"
proof -
  have "mset xs = mset (take n xs) + mset (drop n xs)"
    by (metis append_take_drop_id mset_append)
  then show ?thesis by simp
qed

lemma mset_drop_subset: "mset (drop n xs) \<subseteq># mset xs"
proof -
  have "mset xs = mset (take n xs) + mset (drop n xs)"
    by (metis append_take_drop_id mset_append)
  then show ?thesis by simp
qed

lemma mset_page_subset: "mset (take n (drop m xs)) \<subseteq># mset xs"
  using mset_take_subset [of n "drop m xs"] mset_drop_subset [of m xs]
  by (rule subset_mset.order_trans)

lemma person_clauses:
  "map nested_clause (person_nested_objects person) =
     [Nested ''actors'' (Bool [] [] [Term ''actors.id'' person]),
      Nested ''directors'' (Bool [] [] [Term ''directors.id'' person]),
      Nested ''writers'' (Bool [] [] [Term ''writers.id'' person])]"
  by (simp add: person_nested_objects_def PERSON_ROLES_def nested_clause_def)

lemma person_query_matches:
  "es_matches txt [] (Bool [] (map nested_clause (person_nested_objects person)) []) doc =
     spec_person_in_film person doc"
  by (auto simp: person_clauses strip_prefix_def spec_person_in_film_def spec_person_in_path_def)

lemma get_list_reference:
  assumes "elastic ss = reference_engine txt rank window indices"
    and "indices (es_index ss) = Some hits"
    and "1 \<le> page_number params" and "1 \<le> page_size params"
    and "\<forall>f \<in> set (sort_param params). f \<noteq> []"
    and "page_size params * page_number params \<le> window"
  shows "ElasticSearchService_get_list ss w (Some params) (Some nested) =
           (Inr (map hit_source
              (take (nat (page_size params))
                 (drop (nat (page_size params * (page_number params - 1)))
                    (rank (map spec_sort_directive (sort_param params) @ [(''_score'', ''desc'')])
                       (Bool [] (map nested_clause nested) [])
                       (filter (\<lambda>h. es_matches txt [] (Bool [] (map nested_clause nested) [])
                                       (hit_source h)) hits))))),
            log_call w (EsSearch
              \<lparr>req_index = es_index ss, req_size = page_size params,
               req_from = page_size params * (page_number params - 1),
               req_query = Bool [] (map nested_clause nested) [],
               req_sort = map spec_sort_directive (sort_param params) @ [(''_score'', ''desc'')]\<rparr>))"
proof -
  have nonneg: "\<not> page_size params * (page_number params - 1) < 0"
    using assms(3,4) by (simp add: not_less)
  have "page_size params * (page_number params - 1) + page_size params =
      page_size params * page_number params"
    by (simp add: algebra_simps)
  with assms(6) have win: "\<not> window < page_size params * (page_number params - 1) + page_size params"
    by simp
  have neg: "\<not> page_size params < 0"
    using assms(4) by simp
  show ?thesis
    using assms(1,2,5)
    by (simp add: ElasticSearchService_get_list_def ElasticSearchService_search_def
        search_request_ok from_offset_formula Let_def reference_engine_def reference_search_def
        nonneg win neg)
qed

text \<open>
  Claim C2, as the code has it. For valid parameters, \<^verbatim>\<open>get_person_films\<close> sends one
  request whose query has no \<open>must\<close> clause and the three nested filters (actors,
  directors, writers on the nested id, with the person's id) as \<open>should\<close> clauses; on the
  reference engine a document satisfies it exactly when the person is in one of the three
  nested lists. The documents returned are the requested page (\<open>page_size\<close> entries from
  offset \<open>page_size * (page_number - 1)\<close>) of an ordering of the matching hits, so each
  matching hit comes at most once; on page 1, when no more hits match than the page
  holds, they are exactly the matching hits, each once. The films are hydrated from
  these documents.
\<close>

theorem person_films_are_a_page_of_the_union:
  assumes "elastic (search_service_of svc) = reference_engine txt rank window indices"
    and "indices (es_index (search_service_of svc)) = Some hits"
    and "\<forall>s q hs. mset (rank s q hs) = mset hs"
    and "1 \<le> page_number params" and "1 \<le> page_size params"
    and "\<forall>f \<in> set (sort_param params). f \<noteq> []"
    and "page_size params * page_number params \<le> window"
  shows "\<exists>docs ranked req.
           ElasticSearchService_get_list (search_service_of svc) w (Some params)
             (Some (person_nested_objects person)) = (Inr docs, log_call w (EsSearch req)) \<and>
           req_query req =
             Bool [] [Nested ''actors'' (Bool [] [] [Term ''actors.id'' person]),
                      Nested ''directors'' (Bool [] [] [Term ''directors.id'' person]),
                      Nested ''writers'' (Bool [] [] [Term ''writers.id'' person])] [] \<and>
           (\<forall>doc. es_matches txt [] (req_query req) doc = spec_person_in_film person doc) \<and>
           mset ranked = mset (filter (\<lambda>h. spec_person_in_film person (hit_source h)) hits) \<and>
           docs = map hit_source
                    (take (nat (page_size params))
                       (drop (nat (page_size params * (page_number params - 1))) ranked)) \<and>
           mset docs \<subseteq>#
             mset (map hit_source (filter (\<lambda>h. spec_person_in_film person (hit_source h)) hits)) \<and>
           (page_number params = 1 \<and>
            int (length (filter (\<lambda>h. spec_person_in_film person (hit_source h)) hits))
              \<le> page_size params \<longrightarrow>
            mset docs =
              mset (map hit_source (filter (\<lambda>h. spec_person_in_film person (hit_source h)) hits))) \<and>
           fst (FilmService_get_person_films svc w person params) =
             construct_all (construct (model svc)) docs"
proof -
  let ?q = "Bool [] (map nested_clause (person_nested_objects person)) []"
  let ?s = "map spec_sort_directive (sort_param params) @ [(''_score'', ''desc'')]"
  let ?matching = "filter (\<lambda>h. spec_person_in_film person (hit_source h)) hits"
  let ?ranked = "rank ?s ?q ?matching"
  let ?page = "take (nat (page_size params))
                 (drop (nat (page_size params * (page_number params - 1))) ?ranked)"
  let ?req = "\<lparr>req_index = es_index (search_service_of svc), req_size = page_size params,
               req_from = page_size params * (page_number params - 1),
               req_query = ?q, req_sort = ?s\<rparr>"
  have call: "ElasticSearchService_get_list (search_service_of svc) w (Some params)
      (Some (person_nested_objects person)) = (Inr (map hit_source ?page), log_call w (EsSearch ?req))"
    using get_list_reference [OF assms(1,2,4,5,6,7), of w "person_nested_objects person",
        unfolded person_query_matches] .
  have q: "req_query ?req =
             Bool [] [Nested ''actors'' (Bool [] [] [Term ''actors.id'' person]),
                      Nested ''directors'' (Bool [] [] [Term ''directors.id'' person]),
                      Nested ''writers'' (Bool [] [] [Term ''writers.id'' person])] []"
    by (simp add: person_clauses)
  have m: "\<forall>doc. es_matches txt [] (req_query ?req) doc = spec_person_in_film person doc"
    by (simp del: es_matches.simps add: person_query_matches)
  have r: "mset ?ranked = mset ?matching"
    using assms(3) by simp
  have "mset ?page \<subseteq># mset ?ranked"
    by (rule mset_page_subset)
  with r have "mset ?page \<subseteq># mset ?matching" by simp
  then have sub: "mset (map hit_source ?page) \<subseteq># mset (map hit_source ?matching)"
    using image_mset_subseteq_mono [of "mset ?page" "mset ?matching" hit_source] by simp
  have full: "mset (map hit_source ?page) = mset (map hit_source ?matching)"
    if "page_number params = 1 \<and> int (length ?matching) \<le> page_size params"
  proof -
    from r have "length ?ranked = length ?matching" by (rule mset_eq_length)
    moreover from that have "length ?matching \<le> nat (page_size params)" by linarith
    ultimately have "?page = ?ranked" using that by simp
    with r show ?thesis by (metis mset_map)
  qed
  have films: "fst (FilmService_get_person_films svc w person params) =
      construct_all (construct (model svc)) (map hit_source ?page)"
    by (simp add: FilmService_get_person_films_def call)
  show ?thesis
    apply (rule exI [of _ "map hit_source ?page"])
    apply (rule exI [of _ ?ranked])
    apply (rule exI [of _ ?req])
    using call q m r sub full films by blast
qed

lemma p1_in_films:
  "spec_person_in_film ''p1'' film_one_doc" "spec_person_in_film ''p1'' film_two_doc"
  "\<not> spec_person_in_film ''p1'' film_three_doc"
  by (simp_all add: spec_person_in_film_def spec_person_in_path_def nested_objects_at_def
      field_is_def film_one_doc_def film_two_doc_def film_three_doc_def)

lemma p1_matching:
  "filter (\<lambda>h. spec_person_in_film ''p1'' (hit_source h)) movie_hits =
     [\<lparr>hit_id = ''f1'', hit_source = film_one_doc\<rparr>, \<lparr>hit_id = ''f2'', hit_source = film_two_doc\<rparr>]"
  by (simp add: movie_hits_def p1_in_films)

lemma films_differ: "film_two_doc \<noteq> film_one_doc" "film_one_doc \<noteq> film_two_doc"
  by (simp_all add: film_one_doc_def film_two_doc_def)

theorem person_films_are_a_page_of_the_union_witness:
  "fst (ElasticSearchService_get_list (search_service_of example_films) world_empty
          (Some \<lparr>page_number = 1, page_size = 10, sort_param = []\<rparr>)
          (Some (person_nested_objects ''p1''))) = Inr [film_one_doc, film_two_doc] \<and>
   fst (FilmService_get_person_films example_films world_empty ''p1''
          \<lparr>page_number = 1, page_size = 10, sort_param = []\<rparr>) = Inr [alice_film, film_two] \<and>
   count (mset [film_one_doc, film_two_doc]) film_two_doc = 1"
proof -
  let ?p = "\<lparr>page_number = 1, page_size = 10, sort_param = []\<rparr>"
  have e: "elastic (search_service_of example_films) =
      reference_engine exact_text (\<lambda>s q hs. hs) 10000 [''genres'' \<mapsto> genre_hits, ''movies'' \<mapsto> movie_hits]"
    by (simp add: example_films_simps example_engine_def)
  have i: "[''genres'' \<mapsto> genre_hits, ''movies'' \<mapsto> movie_hits] (es_index (search_service_of example_films)) =
      Some movie_hits"
    by (simp add: example_films_simps)
  have r: "\<forall>s q hs. mset ((\<lambda>s q hs. hs) s q (hs :: es_hit list)) = mset hs" by simp
  have v: "1 \<le> page_number ?p" "1 \<le> page_size ?p" "\<forall>f \<in> set (sort_param ?p). f \<noteq> []"
    "page_size ?p * page_number ?p \<le> 10000"
    by simp_all
  from person_films_are_a_page_of_the_union [OF e i r v, of world_empty "''p1''"]
  obtain docs ranked req where
    d: "ElasticSearchService_get_list (search_service_of example_films) world_empty (Some ?p)
             (Some (person_nested_objects ''p1'')) = (Inr docs, log_call world_empty (EsSearch req))"
    and full: "mset docs = mset (map hit_source (filter (\<lambda>h. spec_person_in_film ''p1'' (hit_source h)) movie_hits))"
    and f: "fst (FilmService_get_person_films example_films world_empty ''p1'' ?p) =
             construct_all (construct (model example_films)) docs"
    by (auto simp: p1_matching)
  have d2: "ElasticSearchService_get_list (search_service_of example_films) world_empty (Some ?p)
             (Some (person_nested_objects ''p1'')) =
       (Inr [film_one_doc, film_two_doc], log_call world_empty (EsSearch
              \<lparr>req_index = ''movies'', req_size = 10, req_from = 0,
               req_query = Bool [] (map nested_clause (person_nested_objects ''p1'')) [],
               req_sort = [(''_score'', ''desc'')]\<rparr>))"
    using get_list_reference [OF e i v, of world_empty "person_nested_objects ''p1''",
        unfolded person_query_matches p1_matching]
    by (simp add: example_films_simps)
  with d have docs: "docs = [film_one_doc, film_two_doc]" by simp
  have c: "construct_all (construct (model example_films)) [film_one_doc, film_two_doc] =
      Inr [alice_film, film_two]"
    by (simp add: example_films_simps example_film_model_def films_differ)
  show ?thesis
    using d2 f docs c by (simp add: films_differ)
qed

text \<open>
  Claim C2 as stated fails: with a page of size 1 the listing returns the first film
  only, although the person is a writer of the second film of the index.
\<close>

theorem person_films_counterexample:
  "fst (ElasticSearchService_get_list movies_search world_empty
          (Some \<lparr>page_number = 1, page_size = 1, sort_param = []\<rparr>)
          (Some (person_nested_objects ''p1''))) = Inr [film_one_doc] \<and>
   \<lparr>hit_id = ''f2'', hit_source = film_two_doc\<rparr> \<in> set movie_hits \<and>
   spec_person_in_path ''p1'' film_two_doc ''writers'' \<and>
   film_two_doc \<notin> set [film_one_doc]"
proof -
  let ?p = "\<lparr>page_number = 1, page_size = 1, sort_param = []\<rparr>"
  have e: "elastic movies_search =
      reference_engine exact_text (\<lambda>s q hs. hs) 10000 [''genres'' \<mapsto> genre_hits, ''movies'' \<mapsto> movie_hits]"
    by (simp add: movies_search_def example_engine_def)
  have i: "[''genres'' \<mapsto> genre_hits, ''movies'' \<mapsto> movie_hits] (es_index movies_search) =
      Some movie_hits"
    by (simp add: movies_search_def)
  have v: "1 \<le> page_number ?p" "1 \<le> page_size ?p" "\<forall>f \<in> set (sort_param ?p). f \<noteq> []"
    "page_size ?p * page_number ?p \<le> 10000"
    by simp_all
  have "fst (ElasticSearchService_get_list movies_search world_empty (Some ?p)
          (Some (person_nested_objects ''p1''))) = Inr [film_one_doc]"
    using get_list_reference [OF e i v, of world_empty "person_nested_objects ''p1''",
        unfolded person_query_matches p1_matching]
    by simp
  moreover have "spec_person_in_path ''p1'' film_two_doc ''writers''"
    by (simp add: spec_person_in_path_def nested_objects_at_def field_is_def film_two_doc_def)
  ultimately show ?thesis
    by (simp add: films_differ movie_hits_def)
qed

section \<open>Cache round trip\<close>

lemma hex_value_hex_digit: "d < 16 \<Longrightarrow> hex_value (hex_digit d) = Some d"
  by (auto simp: hex_value_def hex_digit_def Let_def)

lemma read_u00_escape:
  assumes "(of_char c :: nat) < 32"
  shows "read_u00 [CHR ''0'', CHR ''0'', hex_digit (of_char c div 16), hex_digit (of_char c mod 16)] = Some c"
proof -
  have "(of_char c :: nat) div 16 < 16" "(of_char c :: nat) mod 16 < 16"
    using assms by simp_all
  then show ?thesis
    using assms by (simp add: read_u00_def hex_value_hex_digit)
qed

lemma read_chars_escape_char:
  "read_chars (escape_char c @ t) =
     (case read_chars t of None \<Rightarrow> None | Some (s, r) \<Rightarrow> Some (c # s, r))"
proof (cases "(of_char c :: nat) < 32")
  case True
  then show ?thesis
    by (auto simp: escape_char_def unescape_def read_u00_escape split: option.splits)
next
  case False
  then show ?thesis
    by (auto simp: escape_char_def unescape_def split: option.splits)
qed

lemma read_chars_escaped:
  "read_chars (concat (map escape_char s) @ dq # r) = Some (s, r)"
  by (induction s) (simp_all add: read_chars_escape_char del: read_chars.simps(2), simp)

lemma read_string_json_string [simp]: "read_string (json_string s @ r) = Some (s, r)"
  by (simp add: read_string_def json_string_def read_chars_escaped del: read_chars.simps)

lemma read_items_comma_sep:
  assumes "\<forall>x \<in> set xs. \<forall>r. rd (pr x @ r) = Some (x, r)"
    and "xs \<noteq> []" and "length xs \<le> n"
  shows "read_items n rd (comma_sep (map pr xs) @ CHR '']'' # rest) = Some (xs, rest)"
  using assms
proof (induction xs arbitrary: n)
  case Nil
  then show ?case by simp
next
  case (Cons x xs)
  then obtain m where n: "n = Suc m" by (cases n) auto
  show ?case
  proof (cases xs)
    case Nil
    with Cons.prems n show ?thesis by simp
  next
    case (Cons y ys)
    with Cons.prems n Cons.IH [of m] show ?thesis by simp
  qed
qed

lemma length_comma_sep: "length ts \<le> Suc (length (comma_sep ts))"
  by (induction ts rule: comma_sep.induct) auto

lemma read_array_json_array:
  assumes "\<forall>x \<in> set xs. \<forall>r. rd (pr x @ r) = Some (x, r)"
    and "\<forall>x \<in> set xs. \<exists>c t. pr x = c # t \<and> c \<noteq> CHR '']''"
  shows "read_array rd (json_array pr xs @ rest) = Some (xs, rest)"
proof (cases xs)
  case Nil
  then show ?thesis by (simp add: read_array_def json_array_def)
next
  case (Cons x ys)
  with assms(2) obtain c t where c: "pr x = c # t" "c \<noteq> CHR '']''" by auto
  have "comma_sep (map pr xs) \<noteq> [] \<and> hd (comma_sep (map pr xs)) = c"
    using Cons c by (cases ys) simp_all
  then obtain u where u: "comma_sep (map pr xs) = c # u"
    by (cases "comma_sep (map pr xs)") auto
  have len: "length xs \<le> length (comma_sep (map pr xs) @ CHR '']'' # rest)"
    using length_comma_sep [of "map pr xs"] by simp
  have "read_items (length (comma_sep (map pr xs) @ CHR '']'' # rest)) rd
          (comma_sep (map pr xs) @ CHR '']'' # rest) = Some (xs, rest)"
    using assms(1) Cons len by (intro read_items_comma_sep) simp_all
  then show ?thesis
    using c(2) by (simp add: read_array_def json_array_def u)
qed

lemma json_string_Cons: "\<exists>c t. json_string s = c # t \<and> c \<noteq> CHR '']''"
  by (simp add: json_string_def)

lemma read_array_strings [simp]:
  "read_array read_string (json_array json_string xs @ rest) = Some (xs, rest)"
  using json_string_Cons by (intro read_array_json_array) auto

lemma strip_prefix_Nil [simp]: "strip_prefix [] s = Some s"
  by (simp add: strip_prefix_def)

lemma strip_prefix_Cons [simp]:
  "strip_prefix (c # p) (d # s) = (if c = d then strip_prefix p s else None)"
  by (simp add: strip_prefix_def)

lemma strip_prefix_append [simp]: "strip_prefix p (p @ r) = Some r"
  by (simp add: strip_prefix_def)

lemma strip_prefix_null_json_string [simp]: "strip_prefix ''null'' (json_string s @ r) = None"
  by (simp add: json_string_def)

lemma read_optional_string_text [simp]:
  "read_optional_string (optional_string_text t @ r) = Some (t, r)"
  by (cases t) (simp_all add: read_optional_string_def optional_string_text_def)

lemma read_number_lexeme:
  assumes "number_lexeme tok" and "\<not> number_char c"
  shows "read_number (tok @ c # r) = Some (tok, c # r)"
proof -
  from assms(1) have all: "\<forall>x \<in> set tok. number_char x" and ne: "tok \<noteq> []"
    by (simp_all add: number_lexeme_def list_all_iff)
  from all assms(2) have "takeWhile number_char (tok @ c # r) = tok"
    "dropWhile number_char (tok @ c # r) = c # r"
    by (simp_all add: takeWhile_append2 dropWhile_append2)
  with ne show ?thesis
    by (cases tok) (simp_all add: read_number_def)
qed

lemma strip_prefix_null_lexeme:
  assumes "number_lexeme tok"
  shows "strip_prefix ''null'' (tok @ r) = None"
proof (cases tok)
  case Nil
  with assms show ?thesis by (simp add: number_lexeme_def)
next
  case (Cons x xs)
  with assms have "number_char x" by (simp add: number_lexeme_def)
  then have "x \<noteq> CHR ''n''" by (auto simp: number_char_def)
  with Cons show ?thesis by simp
qed

lemma read_rating_text:
  assumes "rating_is_written g" and "\<not> number_char c"
  shows "read_rating (rating_text g @ c # r) = Some (g, c # r)"
proof (cases g)
  case None
  then show ?thesis by (simp add: read_rating_def rating_text_def)
next
  case (Some x)
  with assms(1) obtain tok where x: "x = Finite tok" and tok: "number_lexeme tok"
    by (cases x) (simp_all add: rating_is_written_def)
  with Some assms(2) show ?thesis
    by (simp add: read_rating_def rating_text_def strip_prefix_null_lexeme read_number_lexeme)
qed

lemma read_Genre_dump [simp]: "read_Genre (Genre_dump_json g @ rest) = Some (g, rest)"
  by (simp add: read_Genre_def Genre_dump_json_def)

lemma read_PersonFilm_text [simp]: "read_PersonFilm (PersonFilm_text pf @ rest) = Some (pf, rest)"
  by (simp add: read_PersonFilm_def PersonFilm_text_def)

lemma read_FilmPerson_text [simp]: "read_FilmPerson (FilmPerson_text fp @ rest) = Some (fp, rest)"
  by (simp add: read_FilmPerson_def FilmPerson_text_def)

lemma read_array_PersonFilm [simp]:
  "read_array read_PersonFilm (json_array PersonFilm_text xs @ rest) = Some (xs, rest)"
  by (rule read_array_json_array) (simp, simp add: PersonFilm_text_def)

lemma read_array_FilmPerson [simp]:
  "read_array read_FilmPerson (json_array FilmPerson_text xs @ rest) = Some (xs, rest)"
  by (rule read_array_json_array) (simp, simp add: FilmPerson_text_def)

lemma read_Person_dump [simp]: "read_Person (Person_dump_json p @ rest) = Some (p, rest)"
  by (simp add: read_Person_def Person_dump_json_def)

lemma read_Film_dump:
  "rating_is_written (imdb_rating f) \<Longrightarrow> read_Film (Film_dump_json f @ rest) = Some (f, rest)"
  by (simp add: read_Film_def Film_dump_json_def read_rating_text number_char_def)

lemma Genre_json_round_trip: "Genre_validate_json (Genre_dump_json g) = Inr g"
  using read_Genre_dump [of g "[]"] by (simp add: Genre_validate_json_def)

lemma Person_json_round_trip: "Person_validate_json (Person_dump_json p) = Inr p"
  using read_Person_dump [of p "[]"] by (simp add: Person_validate_json_def)

lemma Film_json_round_trip:
  "rating_is_written (imdb_rating f) \<Longrightarrow> Film_validate_json (Film_dump_json f) = Inr f"
  using read_Film_dump [of f "[]"] by (simp add: Film_validate_json_def)

lemma Film_dump_not_finite:
  "rating_is_not_finite (imdb_rating f) \<Longrightarrow>
   Film_dump_json f = Film_dump_json (f\<lparr>imdb_rating := None\<rparr>)"
  by (auto simp: rating_is_not_finite_def Film_dump_json_def rating_text_def)

lemma Film_json_not_finite:
  assumes "rating_is_not_finite (imdb_rating f)"
  shows "Film_validate_json (Film_dump_json f) = Inr (f\<lparr>imdb_rating := None\<rparr>)"
proof -
  have "rating_is_written (imdb_rating (f\<lparr>imdb_rating := None\<rparr>))"
    by (simp add: rating_is_written_def)
  then have "Film_validate_json (Film_dump_json (f\<lparr>imdb_rating := None\<rparr>)) =
      Inr (f\<lparr>imdb_rating := None\<rparr>)"
    by (rule Film_json_round_trip)
  with assms show ?thesis by (simp add: Film_dump_not_finite)
qed

lemma dump_json_not_empty:
  "Genre_dump_json g \<noteq> []" "Person_dump_json p \<noteq> []" "Film_dump_json f \<noteq> []"
  by (simp_all add: Genre_dump_json_def Person_dump_json_def Film_dump_json_def)

lemma put_then_get_codec:
  assumes "redis_up w" and "model_dump_json (model svc) item \<noteq> []"
  shows "put_then_get svc w item =
           (case model_validate_json (model svc) (model_dump_json (model svc) item) of
              Inl e \<Rightarrow> Inl e
            | Inr x \<Rightarrow> Inr (Some x))"
  using assms
  by (simp add: put_then_get_def put_to_cache_up Service_get_from_cache_def RedisCache_get_def
      redis_get_def)

lemma put_then_get_Genre:
  "redis_up w \<Longrightarrow> put_then_get (GenreService ss Genre_model) w g = Inr (Some g)"
  by (simp add: put_then_get_codec GenreService_def Genre_model_def dump_json_not_empty
      Genre_json_round_trip)

lemma put_then_get_Person:
  "redis_up w \<Longrightarrow> put_then_get (PersonService ss (Person_model mk)) w p = Inr (Some p)"
  by (simp add: put_then_get_codec PersonService_def Person_model_def dump_json_not_empty
      Person_json_round_trip)

lemma put_then_get_Film:
  "redis_up w \<Longrightarrow> rating_is_written (imdb_rating f) \<Longrightarrow>
   put_then_get (FilmService ss (Film_model mk)) w f = Inr (Some f)"
  by (simp add: put_then_get_codec FilmService_def Film_model_def dump_json_not_empty
      Film_json_round_trip)

lemma put_then_get_Film_not_finite:
  "redis_up w \<Longrightarrow> rating_is_not_finite (imdb_rating f) \<Longrightarrow>
   put_then_get (FilmService ss (Film_model mk)) w f = Inr (Some (f\<lparr>imdb_rating := None\<rparr>))"
  by (simp add: put_then_get_codec FilmService_def Film_model_def dump_json_not_empty
      Film_json_not_finite)

text \<open>
  Claim C7, as the code has it. With the cache reachable, an entity is written under
  \<^verbatim>\<open>{entity_name}_{id}\<close> with its JSON text and a time to live of 300 seconds, and reading
  that id back returns the entity, equal in all fields, for every genre, every person
  and every film whose rating is absent or finite. A film whose rating is infinite or
  not a number is written with a \<^verbatim>\<open>null\<close> rating and read back without a rating.
\<close>

theorem cache_round_trip_of_entities:
  assumes "redis_up w"
  shows "put_then_get (GenreService ss Genre_model) w genre = Inr (Some genre) \<and>
         put_then_get (PersonService ss (Person_model mk_person)) w person = Inr (Some person) \<and>
         (rating_is_written (imdb_rating film) \<longrightarrow>
            put_then_get (FilmService ss (Film_model mk_film)) w film = Inr (Some film)) \<and>
         (rating_is_not_finite (imdb_rating film) \<longrightarrow>
            put_then_get (FilmService ss (Film_model mk_film)) w film =
              Inr (Some (film\<lparr>imdb_rating := None\<rparr>))) \<and>
         (\<exists>w'. Service_put_to_cache (GenreService ss Genre_model) w genre = Inr w' \<and>
               redis_data w' (''genres_'' @ genre_id genre) = Some (Genre_dump_json genre, 300)) \<and>
         (\<exists>w'. Service_put_to_cache (PersonService ss (Person_model mk_person)) w person = Inr w' \<and>
               redis_data w' (''persons_'' @ person_id person) = Some (Person_dump_json person, 300)) \<and>
         (\<exists>w'. Service_put_to_cache (FilmService ss (Film_model mk_film)) w film = Inr w' \<and>
               redis_data w' (''movies_'' @ film_id film) = Some (Film_dump_json film, 300))"
proof -
  have g: "put_then_get (GenreService ss Genre_model) w genre = Inr (Some genre)"
    using assms by (rule put_then_get_Genre)
  have p: "put_then_get (PersonService ss (Person_model mk_person)) w person = Inr (Some person)"
    using assms by (rule put_then_get_Person)
  have f1: "rating_is_written (imdb_rating film) \<longrightarrow>
      put_then_get (FilmService ss (Film_model mk_film)) w film = Inr (Some film)"
    using assms by (simp add: put_then_get_Film)
  have f2: "rating_is_not_finite (imdb_rating film) \<longrightarrow>
      put_then_get (FilmService ss (Film_model mk_film)) w film =
        Inr (Some (film\<lparr>imdb_rating := None\<rparr>))"
    using assms by (simp add: put_then_get_Film_not_finite)
  have s1: "\<exists>w'. Service_put_to_cache (GenreService ss Genre_model) w genre = Inr w' \<and>
               redis_data w' (''genres_'' @ genre_id genre) = Some (Genre_dump_json genre, 300)"
    using assms by (simp add: put_to_cache_up GenreService_def Genre_model_def)
  have s2: "\<exists>w'. Service_put_to_cache (PersonService ss (Person_model mk_person)) w person = Inr w' \<and>
               redis_data w' (''persons_'' @ person_id person) = Some (Person_dump_json person, 300)"
    using assms by (simp add: put_to_cache_up PersonService_def Person_model_def)
  have s3: "\<exists>w'. Service_put_to_cache (FilmService ss (Film_model mk_film)) w film = Inr w' \<and>
               redis_data w' (''movies_'' @ film_id film) = Some (Film_dump_json film, 300)"
    using assms by (simp add: put_to_cache_up FilmService_def Film_model_def)
  show ?thesis
    by (intro conjI) (fact g, fact p, fact f1, fact f2, fact s1, fact s2, fact s3)
qed

theorem cache_round_trip_of_entities_witness:
  "put_then_get (GenreService movies_search Genre_model) world_empty drama = Inr (Some drama) \<and>
   put_then_get (PersonService movies_search (Person_model no_constructor)) world_empty
     alice_with_films = Inr (Some alice_with_films) \<and>
   put_then_get (FilmService movies_search (Film_model no_constructor)) world_empty rated_film =
     Inr (Some rated_film) \<and>
   put_then_get (FilmService movies_search (Film_model no_constructor)) world_empty unrated_film =
     Inr (Some unrated_film) \<and>
   rating_text (imdb_rating rated_film) = ''8.5'' \<and>
   rating_text (imdb_rating infinite_film) = ''null''"
proof -
  have up: "redis_up world_empty" by (simp add: world_empty_def)
  have r: "rating_is_written (imdb_rating rated_film)"
    by (simp add: rated_film_def rating_is_written_def number_lexeme_def number_char_def)
  have u: "rating_is_written (imdb_rating unrated_film)"
    by (simp add: unrated_film_def rating_is_written_def)
  note T = cache_round_trip_of_entities [OF up, of movies_search drama no_constructor
      alice_with_films _ no_constructor]
  from T [of rated_film] T [of unrated_film] r u show ?thesis
    by (simp add: rating_text_def rated_film_def infinite_film_def)
qed

text \<open>
  Claim C7 as stated fails: a film with an infinite rating is written with a \<^verbatim>\<open>null\<close>
  rating, and what is read back has no rating, so it differs from the film written.
\<close>

theorem infinite_rating_counterexample:
  "put_then_get (FilmService movies_search (Film_model no_constructor)) world_empty infinite_film =
     Inr (Some unrated_film) \<and>
   imdb_rating infinite_film = Some PosInf \<and>
   unrated_film \<noteq> infinite_film"
proof -
  have up: "redis_up world_empty" by (simp add: world_empty_def)
  have n: "rating_is_not_finite (imdb_rating infinite_film)"
    by (simp add: infinite_film_def rating_is_not_finite_def)
  have "infinite_film\<lparr>imdb_rating := None\<rparr> = unrated_film"
    by (simp add: infinite_film_def unrated_film_def)
  with put_then_get_Film_not_finite [OF up n, of movies_search no_constructor]
  have "put_then_get (FilmService movies_search (Film_model no_constructor)) world_empty
      infinite_film = Inr (Some unrated_film)" by simp
  moreover have "unrated_film \<noteq> infinite_film"
  proof
    assume "unrated_film = infinite_film"
    then have "imdb_rating unrated_film = imdb_rating infinite_film" by simp
    then show False by (simp add: unrated_film_def infinite_film_def)
  qed
  ultimately show ?thesis by (simp add: infinite_film_def)
qed

end
